theory Spec2Isabelle
  imports Main
begin

section \<open>Deep research agent: job life cycle, retry loop and progress events\<close>

text \<open>
  A shallow embedding of \<^verbatim>\<open>src/lib/tools/deep-research.ts\<close> (the function
  \<^verbatim>\<open>executeDeepResearch\<close> and the tool's \<^verbatim>\<open>execute\<close>), of the server logger's
  \<^verbatim>\<open>serializeError\<close> and \<^verbatim>\<open>logToolExecution\<close>, of the streaming helpers
  (\<^verbatim>\<open>createRunStatus\<close>, \<^verbatim>\<open>createSectionStatus\<close>, \<^verbatim>\<open>formatAsDataPart\<close>), of
  \<^verbatim>\<open>createPartId\<close> and of the two \<^verbatim>\<open>onFinish\<close> hooks.

  Conventions of the embedding.
  \<^item> A JavaScript number that the code uses as a count or as a time read from the clock
    is a \<open>nat\<close>; the one number that can leave the range of the doubles, the backoff,
    is a \<open>JsNumber\<close>.
  \<^item> A thrown error is a \<open>JsError\<close>, its message and its cause; a function that can
    throw returns \<open>JsError + 'a\<close> with \<open>Inl\<close> for the throw.
  \<^item> A field that may be absent (\<^verbatim>\<open>undefined\<close>) is an \<open>option\<close>; JavaScript's
    truthiness test on such a field is \<open>truthy\<close>.
  \<^item> The network, the timer and the log are explicit: every \<^verbatim>\<open>fetch\<close>, every
    \<^verbatim>\<open>setTimeout\<close> wait and every event handed to the log appends one event to the
    trace of the runtime state, in program order. \<^verbatim>\<open>console.log\<close> and
    \<^verbatim>\<open>console.error\<close> are left out.
  \<^item> An ISO timestamp is the clock value it was taken from.
\<close>

subsection \<open>Strings\<close>

definition digit :: "nat \<Rightarrow> char" where
  "digit n = ''0123456789'' ! n"

text \<open>Decimal rendering of a number inside a template literal.\<close>

fun showNat :: "nat \<Rightarrow> string" where
  "showNat n = (if n < 10 then [digit n] else showNat (n div 10) @ [digit (n mod 10)])"

declare showNat.simps [simp del]

text \<open>\<^verbatim>\<open>if (x)\<close> on a value that is a string or \<^verbatim>\<open>undefined\<close>: the empty string is falsy.\<close>

fun truthy :: "string option \<Rightarrow> bool" where
  "truthy None = False"
| "truthy (Some s) = (s \<noteq> [])"

text \<open>\<^verbatim>\<open>a || b\<close> where \<open>a\<close> is a string or \<^verbatim>\<open>undefined\<close> and \<open>b\<close> a string.\<close>

fun orElse :: "string option \<Rightarrow> string \<Rightarrow> string" where
  "orElse None d = d"
| "orElse (Some s) d = (if s = [] then d else s)"


text \<open>A number or \<^verbatim>\<open>undefined\<close> inside a template literal.\<close>

fun showOpt :: "nat option \<Rightarrow> string" where
  "showOpt None = ''undefined''"
| "showOpt (Some n) = showNat n"

subsection \<open>Progress events (types/streaming-events.ts, utils/streaming-helpers.ts)\<close>

datatype ResearchPhase =
  Planning | Dispatching | Researching | Synthesizing | Complete | PhaseError

datatype SectionStatus =
  Queued | Running | SectionSynthesizing | Done | SectionError

record RunStatusPart =
  rs_runId :: string
  phase :: ResearchPhase
  phaseMessage :: string
  completedSections :: nat
  totalSections :: nat
  rs_timestamp :: nat

record OutlineSection =
  os_id :: string
  os_title :: string
  os_description :: string

record OutlinePart =
  ol_runId :: string
  topic :: string
  sections :: "OutlineSection list"
  ol_timestamp :: nat

record Progress =
  sourcesFound :: "nat option"
  keyFindings :: "string list option"
  preview :: "string option"

record SectionStatusPart =
  ss_runId :: string
  sectionId :: string
  sectionTitle :: string
  ss_status :: SectionStatus
  progress :: "Progress option"
  ss_error :: "string option"
  ss_timestamp :: nat

record HeartbeatPart =
  hb_runId :: string
  hb_message :: string
  secondsSinceLastUpdate :: nat
  hb_timestamp :: nat

text \<open>The union \<^verbatim>\<open>StreamingEvent\<close>, discriminated by its \<^verbatim>\<open>type\<close> field.\<close>

datatype StreamingEvent =
    RunStatus RunStatusPart
  | Outline OutlinePart
  | SectionStatusEvent SectionStatusPart
  | Heartbeat HeartbeatPart

text \<open>\<^verbatim>\<open>createRunStatus\<close>; the last argument is the clock read by \<^verbatim>\<open>new Date()\<close>.\<close>

definition createRunStatus ::
  "string \<Rightarrow> ResearchPhase \<Rightarrow> string \<Rightarrow> nat \<Rightarrow> nat \<Rightarrow> nat \<Rightarrow> RunStatusPart" where
  "createRunStatus runId ph msg ncompleted ntotal clock =
     \<lparr>rs_runId = runId, phase = ph, phaseMessage = msg, completedSections = ncompleted,
      totalSections = ntotal, rs_timestamp = clock\<rparr>"

definition createSectionStatus ::
  "string \<Rightarrow> string \<Rightarrow> string \<Rightarrow> SectionStatus \<Rightarrow> Progress option \<Rightarrow> string option \<Rightarrow> nat
     \<Rightarrow> SectionStatusPart" where
  "createSectionStatus runId secId title st prog err clock =
     \<lparr>ss_runId = runId, sectionId = secId, sectionTitle = title, ss_status = st,
      progress = prog, ss_error = err, ss_timestamp = clock\<rparr>"

text \<open>\<^verbatim>\<open>createPartId\<close>: the stable identity used for reconciliation.\<close>

fun createPartId :: "StreamingEvent \<Rightarrow> string" where
  "createPartId (RunStatus e) = ''run:'' @ rs_runId e"
| "createPartId (Outline e) = ''outline:'' @ ol_runId e"
| "createPartId (SectionStatusEvent e) = ''section:'' @ ss_runId e @ '':'' @ sectionId e"
| "createPartId (Heartbeat e) = ''heartbeat:'' @ hb_runId e"

record DataPart =
  part_id :: string
  part_data :: StreamingEvent

definition formatAsDataPart :: "StreamingEvent \<Rightarrow> DataPart" where
  "formatAsDataPart event = \<lparr>part_id = createPartId event, part_data = event\<rparr>"

text \<open>
  Two events describe the same logical entity when they are of the same variant and
  agree on \<open>runId\<close> and, for a section status, on \<open>sectionId\<close>. Every other field
  (timestamp, status, progress, message) is free.
\<close>

fun sameEntity :: "StreamingEvent \<Rightarrow> StreamingEvent \<Rightarrow> bool" where
  "sameEntity (RunStatus a) (RunStatus b) = (rs_runId a = rs_runId b)"
| "sameEntity (Outline a) (Outline b) = (ol_runId a = ol_runId b)"
| "sameEntity (SectionStatusEvent a) (SectionStatusEvent b) =
     (ss_runId a = ss_runId b \<and> sectionId a = sectionId b)"
| "sameEntity (Heartbeat a) (Heartbeat b) = (hb_runId a = hb_runId b)"
| "sameEntity _ _ = False"

subsection \<open>Numbers and the timer\<close>

text \<open>
  The value of a double that is a natural number or has overflowed: \<open>Finite v\<close> is
  the double of the value \<open>v\<close>, \<open>Infinity\<close> what an overflow gives. The doubles end
  below \<open>2 ^ 1024\<close>.
\<close>

datatype JsNumber = Finite nat | Infinity

definition DOUBLE_LIMIT :: nat where
  "DOUBLE_LIMIT = 2 ^ 1024"

text \<open>\<^verbatim>\<open>Math.pow(2, e)\<close> for a natural \<open>e\<close>: a power of two is a double as long as it
  is in range.\<close>

definition mathPow2 :: "nat \<Rightarrow> JsNumber" where
  "mathPow2 e = (if 2 ^ e < DOUBLE_LIMIT then Finite (2 ^ e) else Infinity)"

text \<open>\<^verbatim>\<open>x * 1000\<close> for \<open>x\<close> a power of two or infinite. The product \<open>125 * 2 ^ (e + 3)\<close>
  has a significand of seven bits, so it is a double, without rounding, as long as it
  is in range; the least product out of range, \<open>125 * 2 ^ 1018\<close>, rounds to infinity.\<close>

definition times1000 :: "JsNumber \<Rightarrow> JsNumber" where
  "times1000 x =
     (case x of
        Finite v \<Rightarrow> if v * 1000 < DOUBLE_LIMIT then Finite (v * 1000) else Infinity
      | Infinity \<Rightarrow> Infinity)"

text \<open>The backoff of deep-research.ts, line 45: \<^verbatim>\<open>Math.pow(2, attempt - 1) * 1000\<close>,
  in milliseconds, for an attempt number of at least 1.\<close>

definition backoffMs :: "nat \<Rightarrow> JsNumber" where
  "backoffMs attempt = times1000 (mathPow2 (attempt - 1))"

text \<open>
  The time that \<^verbatim>\<open>setTimeout(resolve, delay)\<close> waits in the Node.js runtime of the
  server: a delay that is not within \<open>1\<close> and \<open>TIMEOUT_MAX = 2 ^ 31 - 1\<close> is
  replaced by \<open>1\<close>.
\<close>

definition TIMEOUT_MAX :: nat where
  "TIMEOUT_MAX = 2147483647"

definition timerDelay :: "JsNumber \<Rightarrow> nat" where
  "timerDelay d =
     (case d of
        Finite v \<Rightarrow> if 1 \<le> v \<and> v \<le> TIMEOUT_MAX then v else 1
      | Infinity \<Rightarrow> 1)"

subsection \<open>Thrown values and serializeError (server logger, lines 98 to 126)\<close>

text \<open>
  A JavaScript value as \<^verbatim>\<open>serializeError\<close> tells values apart:
  \<^item> \<open>Undefined\<close>: any falsy value;
  \<^item> \<open>ErrorObject message cause\<close>: an instance of \<^verbatim>\<open>Error\<close>;
  \<^item> \<open>StringValue s\<close>: a string;
  \<^item> \<open>PlainObject message stringified\<close>: any other object, with its \<^verbatim>\<open>message\<close>
    (\<open>None\<close> when that is \<^verbatim>\<open>null\<close> or \<^verbatim>\<open>undefined\<close>) and what
    \<^verbatim>\<open>JSON.stringify\<close> makes of it: \<open>Inr\<close> its text, or \<open>Inl\<close> the message of the
    \<^verbatim>\<open>TypeError\<close> it throws (a circular structure, a \<^verbatim>\<open>BigInt\<close>);
  \<^item> \<open>OtherValue s\<close>: a value of another type, \<open>s\<close> being \<^verbatim>\<open>String\<close> of it.
  The name and the stack of an error are left out.
\<close>

datatype JsValue =
    Undefined
  | ErrorObject string JsValue
  | StringValue string
  | PlainObject "string option" "string + string"
  | OtherValue string

text \<open>The object that \<^verbatim>\<open>serializeError\<close> returns: the message and the serialized
  cause.\<close>

datatype Serialized = Serialized string "Serialized option"

text \<open>\<^verbatim>\<open>serializeError\<close>; \<open>Inr None\<close> is the result \<^verbatim>\<open>undefined\<close>, \<open>Inl t\<close> a
  \<^verbatim>\<open>TypeError\<close> of message \<open>t\<close> thrown by \<^verbatim>\<open>JSON.stringify\<close>.\<close>

fun serializeError :: "JsValue \<Rightarrow> string + Serialized option" where
  "serializeError Undefined = Inr None"
| "serializeError (ErrorObject message cause) =
     (case serializeError cause of
        Inl t \<Rightarrow> Inl t
      | Inr c \<Rightarrow> Inr (Some (Serialized message c)))"
| "serializeError (StringValue s) =
     (if s = [] then Inr None else Inr (Some (Serialized s None)))"
| "serializeError (PlainObject message stringified) =
     (case message of
        Some m \<Rightarrow> Inr (Some (Serialized m None))
      | None \<Rightarrow> (case stringified of
                   Inr j \<Rightarrow> Inr (Some (Serialized j None))
                 | Inl t \<Rightarrow> Inl t))"
| "serializeError (OtherValue s) = Inr (Some (Serialized s None))"

text \<open>
  What the code under study throws and catches is always an instance of \<^verbatim>\<open>Error\<close>:
  its own \<^verbatim>\<open>new Error(message)\<close>, the \<^verbatim>\<open>SyntaxError\<close> of \<^verbatim>\<open>json()\<close>, or the error
  that \<^verbatim>\<open>fetch\<close> rejects with, whose cause is the runtime's to choose.
\<close>

datatype JsError = JsError string JsValue

definition newError :: "string \<Rightarrow> JsError" where
  "newError message = JsError message Undefined"

fun errorMessage :: "JsError \<Rightarrow> string" where
  "errorMessage (JsError message cause) = message"

fun asValue :: "JsError \<Rightarrow> JsValue" where
  "asValue (JsError message cause) = ErrorObject message cause"

subsection \<open>The external service and the runtime\<close>

text \<open>
  The JSON object answered by \<^verbatim>\<open>POST /responses\<close> and \<^verbatim>\<open>GET /responses/{id}\<close>, with
  the fields the code reads. \<open>error_message\<close> is \<^verbatim>\<open>error?.message\<close>; \<open>resp_output\<close> is
  \<open>None\<close> when the field is absent or not an array; \<open>item_content\<close> is \<open>None\<close> when
  an item has no \<^verbatim>\<open>content\<close>.
\<close>

record Usage =
  input_tokens :: "nat option"
  output_tokens :: "nat option"
  total_tokens :: "nat option"

record ContentPart =
  part_type :: string
  part_text :: "string option"

record OutputItem =
  item_type :: string
  item_content :: "ContentPart list option"

record Response =
  resp_id :: string
  resp_status :: string
  error_message :: "string option"
  output_text :: "string option"
  resp_output :: "OutputItem list option"
  usage :: "Usage option"

text \<open>The body of a request, before \<^verbatim>\<open>JSON.stringify\<close>.\<close>

datatype json =
    JString string
  | JBool bool
  | JArray "json list"
  | JObject "(string \<times> json) list"

record Request =
  req_url :: string
  req_method :: string
  req_headers :: "(string \<times> string) list"
  req_body :: "json option"

text \<open>
  What one \<^verbatim>\<open>fetch\<close> (with the reading of its body) comes to:
  \<^item> \<open>Rejected e\<close>: the promise rejects with the error \<open>e\<close> (no HTTP status is known);
  \<^item> \<open>NotOk code errorData\<close>: a response with \<^verbatim>\<open>ok = false\<close>; \<open>errorData\<close> is
    \<^verbatim>\<open>JSON.stringify\<close> of its body, \<^verbatim>\<open>{}\<close> when the body does not parse;
  \<^item> \<open>OkJson r\<close>: a 2xx response whose body parses to \<open>r\<close>;
  \<^item> \<open>OkInvalid m\<close>: a 2xx response whose \<^verbatim>\<open>json()\<close> throws with message \<open>m\<close>.
\<close>

datatype FetchOutcome =
    Rejected JsError
  | NotOk nat string
  | OkJson Response
  | OkInvalid string

text \<open>
  The service as the program meets it: the outcome of the \<open>k\<close>-th \<^verbatim>\<open>fetch\<close> of the
  run and the milliseconds it takes.
\<close>

type_synonym Service = "nat \<Rightarrow> FetchOutcome \<times> nat"

subsection \<open>The log (server logger, lines 306 to 335)\<close>

text \<open>The \<^verbatim>\<open>parameters\<close> and \<^verbatim>\<open>result\<close> objects of the calls of
  \<^verbatim>\<open>logToolExecution\<close> in deep-research.ts.\<close>

datatype ToolParameters =
    StartParameters string string nat string string bool
  | RetryParameters JsNumber
  | SubmittedParameters string string
  | PollingParameters string string nat nat

record TokenUsage =
  prompt_tokens :: "nat option"
  completion_tokens :: "nat option"
  usage_total_tokens :: "nat option"

record ToolResultMeta =
  rm_markdownPath :: string
  rm_pdfPath :: "string option"
  rm_contentLength :: nat
  rm_contentPreview :: string
  rm_tokenUsage :: "TokenUsage option"

text \<open>
  The argument \<^verbatim>\<open>data\<close> of \<^verbatim>\<open>logToolExecution\<close>, with the fields of its type and
  the property \<^verbatim>\<open>sectionStatus\<close> that the tool adds to it.
\<close>

record ToolExecutionData =
  toolName :: string
  log_phase :: string
  parameters :: "ToolParameters option"
  log_result :: "ToolResultMeta option"
  log_error :: "Serialized option"
  durationMs :: "nat option"
  log_attempt :: "nat option"
  maxAttempts :: "nat option"
  sectionStatus :: "SectionStatusPart option"

text \<open>The event that \<^verbatim>\<open>logToolExecution\<close> builds with \<^verbatim>\<open>createEvent\<close> and hands to
  \<^verbatim>\<open>logEvent\<close>, which writes it as one line of the log.\<close>

record LogEvent =
  ev_id :: string
  ev_timestamp :: nat
  ev_source :: string
  ev_level :: string
  ev_category :: "string option"
  ev_message :: string
  ev_toolName :: string
  ev_phase :: string
  ev_parameters :: "ToolParameters option"
  ev_result :: "ToolResultMeta option"
  ev_error :: "Serialized option"
  ev_durationMs :: "nat option"
  ev_attempt :: "nat option"
  ev_maxAttempts :: "nat option"

text \<open>
  The effects of the program, one event each.
  \<^item> \<open>Fetch request\<close>: a call of \<^verbatim>\<open>fetch\<close>.
  \<^item> \<open>Sleep ms\<close>: a \<^verbatim>\<open>setTimeout\<close> wait and the time it lasts.
  \<^item> \<open>ToolLogged event\<close>: a call of \<^verbatim>\<open>logToolExecution\<close>, by the event it hands to
    \<^verbatim>\<open>logEvent\<close>.
  \<^item> \<open>LogApiCall\<close>: a call of \<^verbatim>\<open>logExternalApiCall\<close> (lines 88, 210 and 249), by the
    tool id, the attempt, the duration, the status and the serialized error.
  \<^verbatim>\<open>logEvent\<close> catches its own failures, so handing it an event never throws; what
  is evaluated before the call, as \<^verbatim>\<open>serializeError\<close> in an argument, can.
\<close>

datatype Event =
    Fetch Request
  | Sleep nat
  | ToolLogged LogEvent
  | LogApiCall string nat nat nat "Serialized option"

text \<open>
  The runtime: the clock (\<^verbatim>\<open>Date.now()\<close>, in milliseconds), the number of fetches
  made and the trace of effects. Time passes only in a \<^verbatim>\<open>fetch\<close> and in a
  \<^verbatim>\<open>setTimeout\<close> wait, which lasts exactly the time of the timer.
\<close>

record Runtime =
  now :: nat
  fetches :: nat
  trace :: "Event list"

definition emit :: "Event \<Rightarrow> Runtime \<Rightarrow> Runtime" where
  "emit e rt = rt\<lparr>trace := trace rt @ [e]\<rparr>"

definition sleep :: "nat \<Rightarrow> Runtime \<Rightarrow> Runtime" where
  "sleep ms rt = rt\<lparr>now := now rt + ms, trace := trace rt @ [Sleep ms]\<rparr>"

definition fetch :: "Service \<Rightarrow> Request \<Rightarrow> Runtime \<Rightarrow> FetchOutcome \<times> Runtime" where
  "fetch svc req rt =
     (fst (svc (fetches rt)),
      rt\<lparr>now := now rt + snd (svc (fetches rt)), fetches := Suc (fetches rt),
         trace := trace rt @ [Fetch req]\<rparr>)"

text \<open>A service given by a finite script of answers and the answer it gives ever after.\<close>

definition scripted :: "(FetchOutcome \<times> nat) list \<Rightarrow> FetchOutcome \<times> nat \<Rightarrow> Service" where
  "scripted answers rest k = (if k < length answers then answers ! k else rest)"

text \<open>\<^verbatim>\<open>await new Promise(resolve => setTimeout(resolve, delay))\<close>.\<close>

definition wait :: "JsNumber \<Rightarrow> Runtime \<Rightarrow> Runtime" where
  "wait delay rt = sleep (timerDelay delay) rt"

text \<open>\<^verbatim>\<open>logToolExecution\<close>: the source, the category, the level and the message of the
  event, and the event itself. The event takes eight fields of \<open>data\<close>;
  \<open>sectionStatus\<close> is not among them.\<close>

definition toolSource :: "string \<Rightarrow> string" where
  "toolSource name =
     (if name = ''tavilySearch'' then ''tool:tavily''
      else if name = ''deepResearch'' then ''tool:deep-research''
      else if name = ''pdfGenerator'' then ''tool:pdf-generator''
      else ''server'')"

definition toolCategory :: "string \<Rightarrow> string option" where
  "toolCategory ph =
     (if ph = ''start'' then Some ''tool.start''
      else if ph = ''progress'' then Some ''tool.progress''
      else if ph = ''success'' then Some ''tool.success''
      else if ph = ''error'' then Some ''tool.error''
      else None)"

definition toolMessage :: "ToolExecutionData \<Rightarrow> string" where
  "toolMessage data =
     (if log_phase data = ''start'' then ''Tool '' @ toolName data @ '' started''
      else if log_phase data = ''progress'' then
        ''Tool '' @ toolName data @ '' progress: attempt '' @ showOpt (log_attempt data) @ ''/''
          @ showOpt (maxAttempts data)
      else if log_phase data = ''success'' then
        ''Tool '' @ toolName data @ '' completed successfully''
          @ (case durationMs data of
               None \<Rightarrow> []
             | Some d \<Rightarrow> if d = 0 then [] else '' ('' @ showNat d @ ''ms)'')
      else if log_phase data = ''error'' then
        ''Tool '' @ toolName data @ '' failed: ''
          @ (case log_error data of
               None \<Rightarrow> ''Unknown error''
             | Some (Serialized m c) \<Rightarrow> if m = [] then ''Unknown error'' else m)
      else ''Tool '' @ toolName data @ '' '' @ log_phase data)"

definition toolLogged :: "string \<Rightarrow> ToolExecutionData \<Rightarrow> nat \<Rightarrow> Event" where
  "toolLogged ident data clock =
     ToolLogged
       \<lparr>ev_id = ident, ev_timestamp = clock, ev_source = toolSource (toolName data),
        ev_level = (if log_phase data = ''error'' then ''error'' else ''info''),
        ev_category = toolCategory (log_phase data), ev_message = toolMessage data,
        ev_toolName = toolName data, ev_phase = log_phase data,
        ev_parameters = parameters data, ev_result = log_result data,
        ev_error = log_error data, ev_durationMs = durationMs data,
        ev_attempt = log_attempt data, ev_maxAttempts = maxAttempts data\<rparr>"

definition logToolExecution :: "string \<Rightarrow> ToolExecutionData \<Rightarrow> Runtime \<Rightarrow> Runtime" where
  "logToolExecution ident data rt = emit (toolLogged ident data (now rt)) rt"

text \<open>The \<open>data\<close> of a call for the tool \<^verbatim>\<open>deepResearch\<close> that gives the phase only.\<close>

definition toolData :: "string \<Rightarrow> ToolExecutionData" where
  "toolData ph =
     \<lparr>toolName = ''deepResearch'', log_phase = ph, parameters = None, log_result = None,
      log_error = None, durationMs = None, log_attempt = None, maxAttempts = None,
      sectionStatus = None\<rparr>"

subsection \<open>executeDeepResearch (deep-research.ts, lines 31 to 283)\<close>

datatype ResultStatus = Completed | Failed | InProgress

record DeepResearchResult =
  res_id :: string
  res_content :: string
  res_status :: ResultStatus
  res_error :: "string option"
  tokenUsage :: "TokenUsage option"

definition systemPrompt :: string where
  "systemPrompt = ''You are a deep research assistant. Provide comprehensive, well-researched answers with citations and sources where applicable.''"

definition POLL_INTERVAL_MS :: nat where
  "POLL_INTERVAL_MS = 5000"

definition MAX_POLL_TIME_MS :: nat where
  "MAX_POLL_TIME_MS = 600000"

text \<open>\<^verbatim>\<open>`Bearer ${_openaiApiKey}`\<close>: an unset key renders as \<^verbatim>\<open>undefined\<close>.\<close>

definition bearer :: "string option \<Rightarrow> string" where
  "bearer key = ''Bearer '' @ (case key of None \<Rightarrow> ''undefined'' | Some k \<Rightarrow> k)"

definition submitBody :: "string \<Rightarrow> json" where
  "submitBody query =
     JObject
      [(''model'', JString ''o4-mini-deep-research-2025-06-26''),
       (''input'',
          JArray
           [JObject
             [(''role'', JString ''user''),
              (''content'',
                 JArray
                  [JObject
                    [(''type'', JString ''input_text''),
                     (''text'', JString (systemPrompt @ [CHR 0x0A, CHR 0x0A] @ query))]])]]),
       (''reasoning'', JObject [(''summary'', JString ''auto'')]),
       (''tools'', JArray [JObject [(''type'', JString ''web_search_preview'')]]),
       (''background'', JBool True)]"

definition submitRequest :: "string option \<Rightarrow> string \<Rightarrow> Request" where
  "submitRequest key query =
     \<lparr>req_url = ''https://api.openai.com/v1/responses'',
      req_method = ''POST'',
      req_headers = [(''Content-Type'', ''application/json''), (''Authorization'', bearer key)],
      req_body = Some (submitBody query)\<rparr>"

definition pollRequest :: "string option \<Rightarrow> string \<Rightarrow> Request" where
  "pollRequest key responseId =
     \<lparr>req_url = ''https://api.openai.com/v1/responses/'' @ responseId,
      req_method = ''GET'',
      req_headers = [(''Authorization'', bearer key)],
      req_body = None\<rparr>"

definition timeoutMessage :: string where
  "timeoutMessage = ''Deep research timed out after '' @ showNat (MAX_POLL_TIME_MS div 1000) @ '' seconds''"

text \<open>The \<open>data\<close> of the three progress calls (lines 46 to 52, 112 to 120 and 157 to
  167).\<close>

definition retryingData :: "nat \<Rightarrow> nat \<Rightarrow> ToolExecutionData" where
  "retryingData attempt maxRetries =
     (toolData ''progress'')
       \<lparr>log_attempt := Some attempt, maxAttempts := Some maxRetries,
        parameters := Some (RetryParameters (backoffMs attempt))\<rparr>"

definition submittedData :: "string \<Rightarrow> string \<Rightarrow> ToolExecutionData" where
  "submittedData responseId initialStatus =
     (toolData ''progress'')\<lparr>parameters := Some (SubmittedParameters responseId initialStatus)\<rparr>"

definition pollingData :: "string \<Rightarrow> string \<Rightarrow> nat \<Rightarrow> nat \<Rightarrow> ToolExecutionData" where
  "pollingData responseId currentStatus pollCount elapsedMs =
     (toolData ''progress'')
       \<lparr>parameters := Some (PollingParameters responseId currentStatus pollCount elapsedMs)\<rparr>"

text \<open>
  Step 2, the polling loop (lines 127 to 169). It is entered with the submit response
  as \<open>pollData\<close>; it returns the last response and the number of polls, or throws.
\<close>

function pollLoop ::
  "Service \<Rightarrow> string option \<Rightarrow> string \<Rightarrow> string \<Rightarrow> nat \<Rightarrow> Response \<Rightarrow> nat \<Rightarrow> Runtime
     \<Rightarrow> (JsError + Response \<times> nat) \<times> Runtime" where
  "pollLoop svc key toolId responseId pollStartTime pollData pollCount rt =
     (if resp_status pollData = ''queued'' \<or> resp_status pollData = ''in_progress'' then
        (let elapsedMs = now rt - pollStartTime in
         if elapsedMs > MAX_POLL_TIME_MS then (Inl (newError timeoutMessage), rt)
         else
           (case fetch svc (pollRequest key responseId) (wait (Finite POLL_INTERVAL_MS) rt) of
              (Rejected e, rt1) \<Rightarrow> (Inl e, rt1)
            | (NotOk code errorData, rt1) \<Rightarrow>
                (Inl (newError (''OpenAI poll error ('' @ showNat code @ ''): '' @ errorData)), rt1)
            | (OkInvalid m, rt1) \<Rightarrow> (Inl (newError m), rt1)
            | (OkJson newData, rt1) \<Rightarrow>
                pollLoop svc key toolId responseId pollStartTime newData (Suc pollCount)
                  (if Suc pollCount mod 6 = 0
                   then logToolExecution toolId
                          (pollingData responseId (resp_status newData) (Suc pollCount) elapsedMs)
                          rt1
                   else rt1)))
      else (Inr (pollData, pollCount), rt))"
  by pat_completeness auto
termination
  by (relation "measure (\<lambda>(svc, key, toolId, responseId, pollStartTime, pollData, pollCount, rt).
        Suc MAX_POLL_TIME_MS + pollStartTime - now rt)")
     (auto simp: fetch_def sleep_def wait_def timerDelay_def emit_def logToolExecution_def
                 POLL_INTERVAL_MS_def TIMEOUT_MAX_def)

declare pollLoop.simps [simp del]

text \<open>Step 4, the extraction of the content (lines 181 to 200).\<close>

text \<open>The inner loop over the parts of one item: the first part of type
  \<^verbatim>\<open>output_text\<close> or \<^verbatim>\<open>text\<close> sets \<open>content\<close> and ends the loop.\<close>

fun scanParts :: "ContentPart list \<Rightarrow> string option \<Rightarrow> string option" where
  "scanParts [] content = content"
| "scanParts (contentItem # rest) content =
     (if part_type contentItem = ''output_text'' \<or> part_type contentItem = ''text''
      then part_text contentItem
      else scanParts rest content)"

text \<open>The outer loop over the items; it ends as soon as \<open>content\<close> is truthy.\<close>

fun scanOutput :: "OutputItem list \<Rightarrow> string option \<Rightarrow> string option" where
  "scanOutput [] content = content"
| "scanOutput (item # rest) content =
     (let content1 =
        (if item_type item = ''message'' then
           (case item_content item of
              Some parts \<Rightarrow> scanParts parts content
            | None \<Rightarrow> content)
         else content)
      in if truthy content1 then content1 else scanOutput rest content1)"

definition extractContent :: "Response \<Rightarrow> string option" where
  "extractContent pollData =
     (if truthy (output_text pollData) then output_text pollData
      else (case resp_output pollData of
              Some items \<Rightarrow> scanOutput items None
            | None \<Rightarrow> None))"

definition noContentMessage :: string where
  "noContentMessage = ''No content returned from OpenAI deep research''"

definition tokenUsageOf :: "Usage option \<Rightarrow> TokenUsage option" where
  "tokenUsageOf u =
     (case u of
        Some v \<Rightarrow> Some \<lparr>prompt_tokens = input_tokens v, completion_tokens = output_tokens v,
                        usage_total_tokens = total_tokens v\<rparr>
      | None \<Rightarrow> None)"

text \<open>Steps 3 and 4 (lines 171 to 244): what the attempt does with the response that
  ended the polling loop.\<close>

definition handleCompletion ::
  "string \<Rightarrow> nat \<Rightarrow> nat \<Rightarrow> string \<Rightarrow> Response \<Rightarrow> nat \<Rightarrow> Runtime
     \<Rightarrow> (JsError + DeepResearchResult) \<times> Runtime" where
  "handleCompletion toolId attempt submitStartTime responseId pollData pollCount rt =
     (let totalDurationMs = now rt - submitStartTime in
      if resp_status pollData = ''failed'' \<or> resp_status pollData = ''cancelled'' then
        (Inl (newError (orElse (error_message pollData) (''Research '' @ resp_status pollData))), rt)
      else
        (case extractContent pollData of
           None \<Rightarrow> (Inl (newError noContentMessage), rt)
         | Some content \<Rightarrow>
             if content = [] then (Inl (newError noContentMessage), rt)
             else
               (Inr \<lparr>res_id = responseId, res_content = content, res_status = Completed,
                     res_error = None, tokenUsage = tokenUsageOf (usage pollData)\<rparr>,
                emit (LogApiCall toolId attempt totalDurationMs 200 None) rt)))"

text \<open>The body of the \<^verbatim>\<open>try\<close> of one attempt (lines 57 to 244). The error of a
  response that is not 2xx is a fresh \<^verbatim>\<open>Error\<close>, which \<^verbatim>\<open>serializeError\<close> turns into
  its message with no cause (line 101).\<close>

definition attemptBody ::
  "Service \<Rightarrow> string option \<Rightarrow> string \<Rightarrow> string \<Rightarrow> nat \<Rightarrow> Runtime
     \<Rightarrow> (JsError + DeepResearchResult) \<times> Runtime" where
  "attemptBody svc key query toolId attempt rt =
     (let submitStartTime = now rt in
      case fetch svc (submitRequest key query) rt of
        (Rejected e, rt1) \<Rightarrow> (Inl e, rt1)
      | (NotOk code errorData, rt1) \<Rightarrow>
          (let message = ''OpenAI API error ('' @ showNat code @ ''): '' @ errorData in
           (Inl (newError message),
            emit (LogApiCall toolId attempt (now rt1 - submitStartTime) code
                    (Some (Serialized message None))) rt1))
      | (OkInvalid m, rt1) \<Rightarrow> (Inl (newError m), rt1)
      | (OkJson submitData, rt1) \<Rightarrow>
          (let responseId = resp_id submitData;
               rt2 = logToolExecution toolId
                       (submittedData responseId (resp_status submitData)) rt1;
               pollStartTime = now rt2
           in case pollLoop svc key toolId responseId pollStartTime submitData 0 rt2 of
                (Inl e, rt3) \<Rightarrow> (Inl e, rt3)
              | (Inr (pollData, pollCount), rt3) \<Rightarrow>
                  handleCompletion toolId attempt submitStartTime responseId pollData pollCount rt3))"

definition failedResult :: "string \<Rightarrow> DeepResearchResult" where
  "failedResult message =
     \<lparr>res_id = ''failed'', res_content = [], res_status = Failed, res_error = Some message,
      tokenUsage = None\<rparr>"

text \<open>The wait at the head of an attempt (lines 43 to 54): none before the first.\<close>

definition backoffWait :: "string \<Rightarrow> nat \<Rightarrow> nat \<Rightarrow> Runtime \<Rightarrow> Runtime" where
  "backoffWait toolId maxRetries attempt rt =
     (if attempt > 1
      then wait (backoffMs attempt)
             (logToolExecution toolId (retryingData attempt maxRetries) rt)
      else rt)"

text \<open>
  The log call at the head of the \<^verbatim>\<open>catch\<close> block (lines 249 to 263). Its argument
  holds \<^verbatim>\<open>serializeError(error)\<close>, evaluated before the call and outside any
  \<^verbatim>\<open>try\<close>: if that throws, the \<^verbatim>\<open>TypeError\<close> leaves the \<^verbatim>\<open>catch\<close> block, and with
  it \<^verbatim>\<open>executeDeepResearch\<close>.
\<close>

definition logCaught :: "string \<Rightarrow> nat \<Rightarrow> JsError \<Rightarrow> Runtime \<Rightarrow> JsError + Runtime" where
  "logCaught toolId attempt error rt =
     (case serializeError (asValue error) of
        Inl t \<Rightarrow> Inl (newError t)
      | Inr serialized \<Rightarrow> Inr (emit (LogApiCall toolId attempt 0 500 serialized) rt))"

text \<open>The \<^verbatim>\<open>for\<close> loop over the attempts with its \<^verbatim>\<open>catch\<close> (lines 42 to 283).\<close>

function retryLoop ::
  "Service \<Rightarrow> string option \<Rightarrow> string \<Rightarrow> string \<Rightarrow> nat \<Rightarrow> nat \<Rightarrow> Runtime
     \<Rightarrow> (JsError + DeepResearchResult) \<times> Runtime" where
  "retryLoop svc key query toolId maxRetries attempt rt =
     (if attempt \<le> maxRetries then
        (case attemptBody svc key query toolId attempt
                (backoffWait toolId maxRetries attempt rt) of
           (Inr result, rt1) \<Rightarrow> (Inr result, rt1)
         | (Inl error, rt1) \<Rightarrow>
             (case logCaught toolId attempt error rt1 of
                Inl thrown \<Rightarrow> (Inl thrown, rt1)
              | Inr rt2 \<Rightarrow>
                  if attempt = maxRetries
                  then (Inr (failedResult (orElse (Some (errorMessage error))
                                             ''Unknown error occurred'')), rt2)
                  else retryLoop svc key query toolId maxRetries (Suc attempt) rt2))
      else (Inr (failedResult ''All retry attempts failed''), rt))"
  by pat_completeness auto
termination
  by (relation "measure (\<lambda>(svc, key, query, toolId, maxRetries, attempt, rt).
        Suc maxRetries - attempt)") auto

declare retryLoop.simps [simp del]

definition executeDeepResearch ::
  "Service \<Rightarrow> string option \<Rightarrow> string \<Rightarrow> string \<Rightarrow> nat \<Rightarrow> Runtime
     \<Rightarrow> (JsError + DeepResearchResult) \<times> Runtime" where
  "executeDeepResearch svc key query toolId maxRetries rt =
     retryLoop svc key query toolId maxRetries 1 rt"

text \<open>A submit request is the \<^verbatim>\<open>POST\<close> among the fetches; a poll is a \<^verbatim>\<open>GET\<close>.\<close>

fun isSubmit :: "Event \<Rightarrow> bool" where
  "isSubmit (Fetch r) = (req_method r = ''POST'')"
| "isSubmit _ = False"

definition submits :: "Runtime \<Rightarrow> nat" where
  "submits rt = length (filter isSubmit (trace rt))"

text \<open>A field of a JSON object.\<close>

fun field :: "string \<Rightarrow> json \<Rightarrow> json option" where
  "field name (JObject kvs) = map_of kvs name"
| "field name _ = None"

text \<open>
  A transport-level failure of a fetch: the promise rejects, or the response is not
  2xx. \<open>submitFailure\<close> is the message of the error the submit step throws on it.
  \<open>loggable\<close> says that the \<^verbatim>\<open>catch\<close> block can serialize that error.
\<close>

fun transportFailure :: "FetchOutcome \<Rightarrow> bool" where
  "transportFailure (Rejected e) = True"
| "transportFailure (NotOk code errorData) = True"
| "transportFailure _ = False"

fun submitFailure :: "FetchOutcome \<Rightarrow> string" where
  "submitFailure (Rejected e) = errorMessage e"
| "submitFailure (NotOk code errorData) = ''OpenAI API error ('' @ showNat code @ ''): '' @ errorData"
| "submitFailure (OkInvalid m) = m"
| "submitFailure (OkJson r) = []"

definition serializes :: "JsError \<Rightarrow> bool" where
  "serializes e = (case serializeError (asValue e) of Inl t \<Rightarrow> False | Inr s \<Rightarrow> True)"

fun loggable :: "FetchOutcome \<Rightarrow> bool" where
  "loggable (Rejected e) = serializes e"
| "loggable _ = True"

text \<open>
  The extraction in the words of the specification: each item of type
  \<^verbatim>\<open>message\<close> offers the text of its first part of type \<^verbatim>\<open>output_text\<close> or
  \<^verbatim>\<open>text\<close>, and the content is the first offer that is a non-empty string.
\<close>

definition isTextPart :: "ContentPart \<Rightarrow> bool" where
  "isTextPart p = (part_type p = ''output_text'' \<or> part_type p = ''text'')"

definition itemText :: "OutputItem \<Rightarrow> string option" where
  "itemText item =
     (if item_type item = ''message'' then
        (case item_content item of
           Some parts \<Rightarrow> (case List.find isTextPart parts of
                            Some p \<Rightarrow> part_text p
                          | None \<Rightarrow> None)
         | None \<Rightarrow> None)
      else None)"

definition firstText :: "OutputItem list \<Rightarrow> string option" where
  "firstText items =
     (case List.find truthy (map itemText items) of Some c \<Rightarrow> c | None \<Rightarrow> None)"

subsection \<open>deepResearchTool.execute (deep-research.ts, lines 295 to 427)\<close>

record ToolInput =
  subtopic :: string
  parentTopic :: string
  sectionNumber :: nat
  in_sectionId :: "string option"
  in_runId :: "string option"
  shouldGeneratePDF :: bool

text \<open>
  The two collaborators of the tool, by their outcome: \<^verbatim>\<open>saveMarkdownReport\<close> and
  \<^verbatim>\<open>generatePDF\<close> return a path or throw.
\<close>

record Host =
  saveMarkdownReport :: "string + string"
  generatePDF :: "string + string"

record ToolOutput =
  success :: bool
  out_error :: "string option"
  out_subtopic :: string
  markdownPath :: "string option"
  pdfPath :: "string option"
  contentPreview :: "string option"

definition missingKeyMessage :: string where
  "missingKeyMessage = ''OPENAI_API_KEY is not set. Call setOpenAIApiKey first.''"

definition effectiveSectionId :: "ToolInput \<Rightarrow> string" where
  "effectiveSectionId inp = orElse (in_sectionId inp) (''section-'' @ showNat (sectionNumber inp))"

definition effectiveRunId :: "ToolInput \<Rightarrow> string" where
  "effectiveRunId inp = orElse (in_runId inp) ''unknown''"

text \<open>The \<open>data\<close> of the log calls of \<^verbatim>\<open>execute\<close>: the start (lines 305 to 309), a
  section status (lines 318 to 322, 350 to 354 and 400 to 404), an error (lines 326 to
  331 and 356 to 361) and the success (lines 407 to 418).\<close>

definition startData :: "ToolInput \<Rightarrow> ToolExecutionData" where
  "startData inp =
     (toolData ''start'')
       \<lparr>parameters :=
          Some (StartParameters (subtopic inp) (parentTopic inp) (sectionNumber inp)
                  (effectiveSectionId inp) (effectiveRunId inp) (shouldGeneratePDF inp))\<rparr>"

definition sectionStatusData :: "SectionStatusPart \<Rightarrow> ToolExecutionData" where
  "sectionStatusData part = (toolData ''section-status'')\<lparr>sectionStatus := Some part\<rparr>"

definition toolErrorData :: "string \<Rightarrow> nat \<Rightarrow> ToolExecutionData" where
  "toolErrorData message duration =
     (toolData ''error'')
       \<lparr>log_error := Some (Serialized message None), durationMs := Some duration\<rparr>"

definition successData :: "ToolResultMeta \<Rightarrow> nat \<Rightarrow> ToolExecutionData" where
  "successData meta duration =
     (toolData ''success'')\<lparr>log_result := Some meta, durationMs := Some duration\<rparr>"

text \<open>What \<^verbatim>\<open>execute\<close> does once \<^verbatim>\<open>executeDeepResearch\<close> has returned (lines 340 to 427).\<close>

definition afterResearch ::
  "Host \<Rightarrow> string \<Rightarrow> nat \<Rightarrow> ToolInput \<Rightarrow> DeepResearchResult \<Rightarrow> Runtime
     \<Rightarrow> (JsError + ToolOutput) \<times> Runtime" where
  "afterResearch host toolId startTime inp result rt =
     (if res_status result = Failed then
        (let errorStatus = createSectionStatus (effectiveRunId inp) (effectiveSectionId inp)
                             (subtopic inp) SectionError None (res_error result) (now rt);
             rt1 = logToolExecution toolId (sectionStatusData errorStatus) rt;
             rt2 = logToolExecution toolId
                     (toolErrorData (orElse (res_error result) ''Unknown error'')
                        (now rt1 - startTime)) rt1
         in (Inr \<lparr>success = False, out_error = res_error result, out_subtopic = subtopic inp,
                   markdownPath = None, pdfPath = None, contentPreview = None\<rparr>, rt2))
      else
        (case saveMarkdownReport host of
           Inl m \<Rightarrow> (Inl (newError m), rt)
         | Inr filePath \<Rightarrow>
             (let pdf = (if shouldGeneratePDF inp
                         then (case generatePDF host of Inr p \<Rightarrow> Some p | Inl m \<Rightarrow> None)
                         else None);
                  shortened = take 200 (res_content result) @ ''...'';
                  doneStatus = createSectionStatus (effectiveRunId inp) (effectiveSectionId inp)
                                 (subtopic inp) Done
                                 (Some \<lparr>sourcesFound = None, keyFindings = None,
                                        preview = Some shortened\<rparr>)
                                 None (now rt);
                  rt1 = logToolExecution toolId (sectionStatusData doneStatus) rt;
                  rt2 = logToolExecution toolId
                          (successData
                             \<lparr>rm_markdownPath = filePath, rm_pdfPath = pdf,
                              rm_contentLength = length (res_content result),
                              rm_contentPreview = shortened,
                              rm_tokenUsage = tokenUsage result\<rparr>
                             (now rt1 - startTime)) rt1
              in (Inr \<lparr>success = True, out_error = None, out_subtopic = subtopic inp,
                        markdownPath = Some filePath, pdfPath = pdf,
                        contentPreview = Some shortened\<rparr>, rt2))))"

text \<open>The two log calls at the head of \<^verbatim>\<open>execute\<close> (lines 304 to 322): the start of the
  tool and the section status \<^verbatim>\<open>running\<close>.\<close>

definition announce :: "string \<Rightarrow> ToolInput \<Rightarrow> Runtime \<Rightarrow> Runtime" where
  "announce toolId inp rt =
     (let rt1 = logToolExecution toolId (startData inp) rt;
          runningStatus = createSectionStatus (effectiveRunId inp) (effectiveSectionId inp)
                            (subtopic inp) Running None None (now rt1)
      in logToolExecution toolId (sectionStatusData runningStatus) rt1)"

text \<open>
  \<^verbatim>\<open>execute\<close>. \<open>key\<close> is the module variable \<^verbatim>\<open>_openaiApiKey\<close>, \<open>toolId\<close> the
  value of \<^verbatim>\<open>crypto.randomUUID()\<close>. \<open>Inl\<close> is an exception leaving \<^verbatim>\<open>execute\<close>;
  the call of \<^verbatim>\<open>executeDeepResearch\<close> stands in no \<^verbatim>\<open>try\<close>.
\<close>

definition execute ::
  "Service \<Rightarrow> Host \<Rightarrow> string option \<Rightarrow> string \<Rightarrow> ToolInput \<Rightarrow> Runtime
     \<Rightarrow> (JsError + ToolOutput) \<times> Runtime" where
  "execute svc host key toolId inp rt =
     (let startTime = now rt;
          rt2 = announce toolId inp rt
      in if \<not> truthy key then
           (Inl (newError missingKeyMessage),
            logToolExecution toolId (toolErrorData missingKeyMessage (now rt2 - startTime)) rt2)
         else
           (case executeDeepResearch svc key (subtopic inp) toolId 3 rt2 of
              (Inl thrown, rt3) \<Rightarrow> (Inl thrown, rt3)
            | (Inr result, rt3) \<Rightarrow> afterResearch host toolId startTime inp result rt3))"

text \<open>The events of the trace that come from a call of \<^verbatim>\<open>logToolExecution\<close> with the
  phase \<^verbatim>\<open>section-status\<close>.\<close>

fun isSectionStatusLog :: "Event \<Rightarrow> bool" where
  "isSectionStatusLog (ToolLogged ev) = (ev_phase ev = ''section-status'')"
| "isSectionStatusLog _ = False"

subsection \<open>The end of a run (routes/api/chat/+server.ts and the chat page)\<close>

text \<open>
  The argument of the server's \<^verbatim>\<open>onFinish\<close>: the finish reason and, in
  \<open>toolResults\<close>, what each \<^verbatim>\<open>deepResearch\<close> call of the run returned (one per
  section's job).
\<close>

record FinishEvent =
  finishReason :: string
  toolResults :: "ToolOutput list"

text \<open>The final run status built by the server's \<^verbatim>\<open>onFinish\<close> (lines 113 to 133).\<close>

definition onFinish :: "string \<Rightarrow> FinishEvent \<Rightarrow> nat \<Rightarrow> RunStatusPart" where
  "onFinish runId result clock = createRunStatus runId Complete ''Research complete'' 5 5 clock"

text \<open>The chat page's \<^verbatim>\<open>onFinish\<close> (lines 60 to 72), on the page's \<^verbatim>\<open>runStatus\<close>.\<close>

definition chatOnFinish :: "RunStatusPart option \<Rightarrow> RunStatusPart option" where
  "chatOnFinish runStatus =
     (case runStatus of
        None \<Rightarrow> None
      | Some s \<Rightarrow> Some (s\<lparr>phase := Complete, phaseMessage := ''Research complete!'',
                          completedSections := totalSections s\<rparr>))"

text \<open>
  The terminal phase in the words of the specification: \<^verbatim>\<open>error\<close> if all jobs
  failed, \<^verbatim>\<open>complete\<close> otherwise.
\<close>

definition allFailed :: "ToolOutput list \<Rightarrow> bool" where
  "allFailed jobs = list_all (\<lambda>j. \<not> success j) jobs"

definition specTerminalPhase :: "ToolOutput list \<Rightarrow> ResearchPhase" where
  "specTerminalPhase jobs = (if allFailed jobs then PhaseError else Complete)"

text \<open>
  The extracted content in the words of the specification, with "present" read as
  "a non-empty string": the primary field, else the first text offered by the output
  list.
\<close>

definition specContent :: "Response \<Rightarrow> string option" where
  "specContent d =
     (if truthy (output_text d) then output_text d
      else (case resp_output d of Some items \<Rightarrow> firstText items | None \<Rightarrow> None))"

subsection \<open>Scenarios\<close>

definition startRuntime :: Runtime where
  "startRuntime = \<lparr>now = 0, fetches = 0, trace = []\<rparr>"

definition bareResponse :: "string \<Rightarrow> string \<Rightarrow> Response" where
  "bareResponse rid st =
     \<lparr>resp_id = rid, resp_status = st, error_message = None, output_text = None,
      resp_output = None, usage = None\<rparr>"

definition reportResponse :: Response where
  "reportResponse = (bareResponse ''resp_2'' ''completed'')\<lparr>output_text := Some ''report''\<rparr>"

text \<open>Every fetch is rejected, with an error whose message is empty.\<close>

definition silentlyDown :: Service where
  "silentlyDown = scripted [] (Rejected (newError []), 0)"

text \<open>Every fetch is answered 503 with an empty JSON object.\<close>

definition unavailable :: Service where
  "unavailable = scripted [] (NotOk 503 ''{}'', 20)"

text \<open>The first job is reported \<^verbatim>\<open>failed\<close> by the service; a second submit completes.\<close>

definition failedThenOk :: Service where
  "failedThenOk =
     scripted [(OkJson (bareResponse ''resp_1'' ''failed''), 100), (OkJson reportResponse, 100)]
       (Rejected (newError ''down''), 0)"

text \<open>The first job is queued, and its first poll, answered \<^verbatim>\<open>in_progress\<close>, takes
  more than ten minutes; a second submit completes.\<close>

definition slowThenOk :: Service where
  "slowThenOk =
     scripted [(OkJson (bareResponse ''resp_1'' ''queued''), 10),
               (OkJson (bareResponse ''resp_1'' ''in_progress''), 700000),
               (OkJson reportResponse, 100)]
       (Rejected (newError ''down''), 0)"

text \<open>A completed response whose \<^verbatim>\<open>output_text\<close> is the empty string and whose
  output list holds one message with the text \<^verbatim>\<open>B\<close>.\<close>

definition emptyPrimary :: Response where
  "emptyPrimary =
     (bareResponse ''resp_1'' ''completed'')
       \<lparr>output_text := Some [],
        resp_output := Some [\<lparr>item_type = ''message'',
                              item_content = Some [\<lparr>part_type = ''output_text'',
                                                     part_text = Some ''B''\<rparr>]\<rparr>]\<rparr>"

text \<open>A completed response without \<^verbatim>\<open>output_text\<close>: a reasoning item, a message
  whose first text part is empty, and a message with the text \<^verbatim>\<open>Findings\<close>.\<close>

definition fallbackResponse :: Response where
  "fallbackResponse =
     (bareResponse ''resp_3'' ''completed'')
       \<lparr>resp_output :=
          Some [\<lparr>item_type = ''reasoning'', item_content = None\<rparr>,
                \<lparr>item_type = ''message'',
                 item_content = Some [\<lparr>part_type = ''refusal'', part_text = None\<rparr>,
                                      \<lparr>part_type = ''text'', part_text = Some []\<rparr>,
                                      \<lparr>part_type = ''text'', part_text = Some ''skipped''\<rparr>]\<rparr>,
                \<lparr>item_type = ''message'',
                 item_content = Some [\<lparr>part_type = ''output_text'',
                                        part_text = Some ''Findings''\<rparr>]\<rparr>]\<rparr>"

text \<open>The first job is queued, and its first poll finds it \<^verbatim>\<open>failed\<close>; a second submit
  completes.\<close>

definition pollFailedThenOk :: Service where
  "pollFailedThenOk =
     scripted [(OkJson (bareResponse ''resp_1'' ''queued''), 10),
               (OkJson (bareResponse ''resp_1'' ''failed''), 30),
               (OkJson reportResponse, 100)]
       (Rejected (newError ''down''), 0)"

text \<open>Every fetch is rejected with an error whose cause is an object without a message
  that holds a \<^verbatim>\<open>BigInt\<close>.\<close>

definition opaqueDown :: Service where
  "opaqueDown =
     scripted []
       (Rejected (JsError ''fetch failed''
                    (PlainObject None (Inl ''Do not know how to serialize a BigInt''))), 0)"

definition sectionOne :: ToolInput where
  "sectionOne =
     \<lparr>subtopic = ''History'', parentTopic = ''Tea'', sectionNumber = 1,
      in_sectionId = None, in_runId = Some ''run-1'', shouldGeneratePDF = False\<rparr>"

definition diskOk :: Host where
  "diskOk = \<lparr>saveMarkdownReport = Inr ''out/01_history.md'', generatePDF = Inr ''out/01_history.pdf''\<rparr>"

definition failedOutput :: ToolOutput where
  "failedOutput =
     \<lparr>success = False, out_error = Some ''Research failed'', out_subtopic = ''History'',
      markdownPath = None, pdfPath = None, contentPreview = None\<rparr>"

definition okOutput :: ToolOutput where
  "okOutput =
     \<lparr>success = True, out_error = None, out_subtopic = ''Trade'',
      markdownPath = Some ''out/02_trade.md'', pdfPath = None, contentPreview = Some ''Tea...''\<rparr>"

section \<open>Properties\<close>

subsection \<open>The runtime, the polling loop and the retry loop\<close>

lemma emit_simps [simp]:
  "now (emit e rt) = now rt" "fetches (emit e rt) = fetches rt" "trace (emit e rt) = trace rt @ [e]"
  by (simp_all add: emit_def)

lemma sleep_simps [simp]:
  "now (sleep ms rt) = now rt + ms" "fetches (sleep ms rt) = fetches rt"
  "trace (sleep ms rt) = trace rt @ [Sleep ms]"
  by (simp_all add: sleep_def)

lemma wait_simps [simp]:
  "now (wait d rt) = now rt + timerDelay d" "fetches (wait d rt) = fetches rt"
  "trace (wait d rt) = trace rt @ [Sleep (timerDelay d)]"
  by (simp_all add: wait_def)

lemma timerDelay_poll [simp]: "timerDelay (Finite POLL_INTERVAL_MS) = 5000"
  by (simp add: timerDelay_def POLL_INTERVAL_MS_def TIMEOUT_MAX_def)

lemma fetch_simps [simp]:
  "fst (fetch svc req rt) = fst (svc (fetches rt))"
  "now (snd (fetch svc req rt)) = now rt + snd (svc (fetches rt))"
  "fetches (snd (fetch svc req rt)) = Suc (fetches rt)"
  "trace (snd (fetch svc req rt)) = trace rt @ [Fetch req]"
  by (simp_all add: fetch_def)

lemma logToolExecution_simps [simp]:
  "now (logToolExecution ident data rt) = now rt"
  "fetches (logToolExecution ident data rt) = fetches rt"
  "trace (logToolExecution ident data rt) = trace rt @ [toolLogged ident data (now rt)]"
  by (simp_all add: logToolExecution_def)

lemma isSubmit_toolLogged [simp]: "\<not> isSubmit (toolLogged ident data clock)"
  by (simp add: toolLogged_def)

lemma backoffWait_simps [simp]:
  "fetches (backoffWait t n a rt) = fetches rt"
  "trace (backoffWait t n a rt) =
     trace rt @ (if 1 < a
                 then [toolLogged t (retryingData a n) (now rt), Sleep (timerDelay (backoffMs a))]
                 else [])"
  by (simp_all add: backoffWait_def)

lemma req_method_simps [simp]:
  "req_method (submitRequest key query) = ''POST''"
  "req_method (pollRequest key rid) = ''GET''"
  by (simp_all add: submitRequest_def pollRequest_def)

lemma fetch_runtimeD:
  "fetch svc req rt = (out, rt1) \<Longrightarrow>
     now rt1 = now rt + snd (svc (fetches rt)) \<and>
     fetches rt1 = Suc (fetches rt) \<and> trace rt1 = trace rt @ [Fetch req]"
  by (auto simp: fetch_def)

text \<open>A fresh \<^verbatim>\<open>Error\<close> always serializes; the \<^verbatim>\<open>catch\<close> block logs an error that
  serializes and throws on one that does not.\<close>

lemma serializeError_newError [simp]:
  "serializeError (asValue (newError m)) = Inr (Some (Serialized m None))"
  by (simp add: newError_def)

lemma logCaught_Inr:
  "serializeError (asValue e) = Inr s \<Longrightarrow>
     logCaught t a e rt = Inr (emit (LogApiCall t a 0 500 s) rt)"
  by (simp add: logCaught_def)

lemma logCaught_Inl:
  "serializeError (asValue e) = Inl m \<Longrightarrow> logCaught t a e rt = Inl (newError m)"
  by (simp add: logCaught_def)

lemma logCaught_runtimeD:
  "logCaught t a e rt = Inr rt2 \<Longrightarrow>
     (\<exists>s. serializeError (asValue e) = Inr s \<and> rt2 = emit (LogApiCall t a 0 500 s) rt)"
  by (auto simp: logCaught_def split: sum.splits)

lemma logCaught_serializes:
  "serializes e \<Longrightarrow> \<exists>s. logCaught t a e rt = Inr (emit (LogApiCall t a 0 500 s) rt)"
  by (auto simp: logCaught_def serializes_def split: sum.splits)

text \<open>One turn of the polling loop, by the outcome of its fetch.\<close>

lemma pollLoop_done:
  "\<not> (resp_status d = ''queued'' \<or> resp_status d = ''in_progress'') \<Longrightarrow>
     pollLoop svc key toolId rid start d n rt = (Inr (d, n), rt)"
  by (simp add: pollLoop.simps)

lemma pollLoop_timeout:
  "resp_status d = ''queued'' \<or> resp_status d = ''in_progress'' \<Longrightarrow>
   MAX_POLL_TIME_MS < now rt - start \<Longrightarrow>
     pollLoop svc key toolId rid start d n rt = (Inl (newError timeoutMessage), rt)"
  by (simp add: pollLoop.simps)

lemma pollLoop_step:
  assumes "resp_status d = ''queued'' \<or> resp_status d = ''in_progress''"
    and "\<not> MAX_POLL_TIME_MS < now rt - start"
    and "fetch svc (pollRequest key rid) (wait (Finite POLL_INTERVAL_MS) rt) = (out, rt1)"
  shows "pollLoop svc key toolId rid start d n rt =
     (case out of
        Rejected e \<Rightarrow> (Inl e, rt1)
      | NotOk code body \<Rightarrow>
          (Inl (newError (''OpenAI poll error ('' @ showNat code @ ''): '' @ body)), rt1)
      | OkInvalid m \<Rightarrow> (Inl (newError m), rt1)
      | OkJson newData \<Rightarrow>
          pollLoop svc key toolId rid start newData (Suc n)
            (if Suc n mod 6 = 0
             then logToolExecution toolId
                    (pollingData rid (resp_status newData) (Suc n) (now rt - start)) rt1
             else rt1))"
  using assms by (simp add: pollLoop.simps [of svc key toolId rid start d n rt])

text \<open>What a run of the polling loop adds to the runtime, and where it can end.\<close>

lemma pollLoop_effects:
  "pollLoop svc key toolId rid start d n rt = (res, rt') \<Longrightarrow>
     fetches rt \<le> fetches rt' \<and>
     (\<exists>evs. trace rt' = trace rt @ evs \<and> list_all (\<lambda>e. \<not> isSubmit e) evs)"
proof (induction svc key toolId rid start d n rt arbitrary: res rt' rule: pollLoop.induct)
  case (1 svc key toolId rid start d n rt)
  note run = "1.prems"
  show ?case
  proof (cases "resp_status d = ''queued'' \<or> resp_status d = ''in_progress''")
    case False
    with run show ?thesis by (simp add: pollLoop_done)
  next
    case waiting: True
    show ?thesis
    proof (cases "MAX_POLL_TIME_MS < now rt - start")
      case True
      with run waiting show ?thesis by (simp add: pollLoop_timeout)
    next
      case inTime: False
      obtain out rt1 where
        f: "fetch svc (pollRequest key rid) (wait (Finite POLL_INTERVAL_MS) rt) = (out, rt1)"
        by force
      note fd = fetch_runtimeD [OF f]
      note step = pollLoop_step [OF waiting inTime f, of toolId n]
      show ?thesis
      proof (cases out)
        case (OkJson newData)
        let ?rt2 = "if Suc n mod 6 = 0
                    then logToolExecution toolId
                           (pollingData rid (resp_status newData) (Suc n) (now rt - start)) rt1
                    else rt1"
        from run step OkJson
        have rec: "pollLoop svc key toolId rid start newData (Suc n) ?rt2 = (res, rt')"
          by simp
        from "1.IH" [OF waiting refl inTime f [symmetric] OkJson rec]
        obtain evs where a: "fetches ?rt2 \<le> fetches rt'" and b: "trace rt' = trace ?rt2 @ evs"
          and c: "list_all (\<lambda>e. \<not> isSubmit e) evs"
          by blast
        from a fd have "fetches rt \<le> fetches rt'" by (simp split: if_splits)
        moreover from b c fd
        have "\<exists>evs'. trace rt' = trace rt @ evs' \<and> list_all (\<lambda>e. \<not> isSubmit e) evs'"
          by (simp split: if_splits)
        ultimately show ?thesis by blast
      next
        case (Rejected e)
        with run step have "rt' = rt1" by simp
        with fd show ?thesis by simp
      next
        case (NotOk code body)
        with run step have "rt' = rt1" by simp
        with fd show ?thesis by simp
      next
        case (OkInvalid m)
        with run step have "rt' = rt1" by simp
        with fd show ?thesis by simp
      qed
    qed
  qed
qed

text \<open>Steps 3 and 4 add at most a log entry; a result they return is a completed one.\<close>

lemma handleCompletion_effects:
  "handleCompletion toolId a s rid d n rt = (res, rt') \<Longrightarrow>
     fetches rt' = fetches rt \<and>
     (\<exists>evs. trace rt' = trace rt @ evs \<and> list_all (\<lambda>e. \<not> isSubmit e) evs) \<and>
     (\<forall>r. res = Inr r \<longrightarrow> res_status r = Completed \<and> res_content r \<noteq> [] \<and> res_error r = None)"
  by (auto simp: handleCompletion_def Let_def split: if_splits option.splits)

text \<open>One attempt, by the outcome of its submit.\<close>

lemma attemptBody_step:
  assumes "fetch svc (submitRequest key query) rt = (out, rt1)"
  shows "attemptBody svc key query toolId a rt =
     (case out of
        Rejected e \<Rightarrow> (Inl e, rt1)
      | NotOk code body \<Rightarrow>
          (Inl (newError (submitFailure out)),
           emit (LogApiCall toolId a (now rt1 - now rt) code
                   (Some (Serialized (submitFailure out) None))) rt1)
      | OkInvalid m \<Rightarrow> (Inl (newError m), rt1)
      | OkJson submitData \<Rightarrow>
          (case pollLoop svc key toolId (resp_id submitData) (now rt1) submitData 0
                  (logToolExecution toolId
                     (submittedData (resp_id submitData) (resp_status submitData)) rt1) of
             (Inl e, rt3) \<Rightarrow> (Inl e, rt3)
           | (Inr (pollData, pollCount), rt3) \<Rightarrow>
               handleCompletion toolId a (now rt) (resp_id submitData) pollData pollCount rt3))"
  using assms by (simp add: attemptBody_def Let_def split: FetchOutcome.splits)

lemma attemptBody_effects:
  assumes run: "attemptBody svc key query toolId a rt = (res, rt')"
  shows "Suc (fetches rt) \<le> fetches rt' \<and>
     (\<exists>evs. trace rt' = trace rt @ Fetch (submitRequest key query) # evs \<and>
            list_all (\<lambda>e. \<not> isSubmit e) evs) \<and>
     (\<forall>r. res = Inr r \<longrightarrow> res_status r = Completed \<and> res_content r \<noteq> [] \<and> res_error r = None)"
proof -
  obtain out rt1 where f: "fetch svc (submitRequest key query) rt = (out, rt1)"
    by force
  note fd = fetch_runtimeD [OF f]
  note step = attemptBody_step [OF f, of toolId a]
  show ?thesis
  proof (cases out)
    case (Rejected e)
    with run step have "rt' = rt1" "res = Inl e" by simp_all
    with fd show ?thesis by simp
  next
    case (OkInvalid m)
    with run step have "rt' = rt1" "res = Inl (newError m)" by simp_all
    with fd show ?thesis by simp
  next
    case (NotOk code body)
    with run step
    have "rt' = emit (LogApiCall toolId a (now rt1 - now rt) code
                        (Some (Serialized (submitFailure out) None))) rt1"
      and "res = Inl (newError (submitFailure out))" by simp_all
    with fd show ?thesis by simp
  next
    case (OkJson submitData)
    let ?rt2 = "logToolExecution toolId
                  (submittedData (resp_id submitData) (resp_status submitData)) rt1"
    obtain pres rt3 where
      p: "pollLoop svc key toolId (resp_id submitData) (now rt1) submitData 0 ?rt2 = (pres, rt3)"
      by force
    from pollLoop_effects [OF p] obtain evs where
      pf: "fetches ?rt2 \<le> fetches rt3" and pt: "trace rt3 = trace ?rt2 @ evs"
      and pn: "list_all (\<lambda>e. \<not> isSubmit e) evs"
      by blast
    show ?thesis
    proof (cases pres)
      case (Inl e)
      with run step OkJson p have "rt' = rt3" "res = Inl e" by simp_all
      with fd pf pt pn show ?thesis by simp
    next
      case (Inr fin)
      obtain pollData pollCount where d: "fin = (pollData, pollCount)" by force
      from run step OkJson p Inr d
      have h: "handleCompletion toolId a (now rt) (resp_id submitData) pollData pollCount rt3 = (res, rt')"
        by simp
      from handleCompletion_effects [OF h] obtain evs' where
        hf: "fetches rt' = fetches rt3" and ht: "trace rt' = trace rt3 @ evs'"
        and hn: "list_all (\<lambda>e. \<not> isSubmit e) evs'"
        and hr: "\<forall>r. res = Inr r \<longrightarrow> res_status r = Completed \<and> res_content r \<noteq> [] \<and> res_error r = None"
        by blast
      from fd pf hf have "Suc (fetches rt) \<le> fetches rt'" by simp
      moreover from fd pt ht pn hn
      have "\<exists>evs. trace rt' = trace rt @ Fetch (submitRequest key query) # evs \<and>
            list_all (\<lambda>e. \<not> isSubmit e) evs"
        by simp
      ultimately show ?thesis using hr by blast
    qed
  qed
qed

text \<open>An attempt whose submit meets a transport-level failure: one fetch, one throw.\<close>

lemma attemptBody_transportFailure:
  assumes "transportFailure (fst (svc (fetches rt)))"
  shows "\<exists>e rt'. attemptBody svc key query toolId a rt = (Inl e, rt') \<and>
     errorMessage e = submitFailure (fst (svc (fetches rt))) \<and>
     serializes e = loggable (fst (svc (fetches rt))) \<and>
     fetches rt' = Suc (fetches rt) \<and> submits rt' = Suc (submits rt)"
proof -
  obtain out rt1 where f: "fetch svc (submitRequest key query) rt = (out, rt1)"
    by force
  then have out: "out = fst (svc (fetches rt))" by (auto simp: fetch_def)
  note fd = fetch_runtimeD [OF f]
  note step = attemptBody_step [OF f, of toolId a]
  from assms out have tf: "transportFailure out" by simp
  have "\<exists>e rt'. attemptBody svc key query toolId a rt = (Inl e, rt') \<and>
     errorMessage e = submitFailure out \<and> serializes e = loggable out \<and>
     fetches rt' = Suc (fetches rt) \<and> submits rt' = Suc (submits rt)"
  proof (cases out)
    case (Rejected e)
    with step fd show ?thesis by (simp add: submits_def)
  next
    case (NotOk code body)
    with step fd show ?thesis by (simp add: submits_def serializes_def newError_def)
  next
    case (OkJson r)
    with tf show ?thesis by simp
  next
    case (OkInvalid m)
    with tf show ?thesis by simp
  qed
  then show ?thesis unfolding out .
qed

text \<open>The retry loop, one turn at a time.\<close>

lemma retryLoop_beyond:
  "maxRetries < attempt \<Longrightarrow>
     retryLoop svc key query toolId maxRetries attempt rt =
       (Inr (failedResult ''All retry attempts failed''), rt)"
  by (simp add: retryLoop.simps)

lemma retryLoop_success:
  "attempt \<le> maxRetries \<Longrightarrow>
   attemptBody svc key query toolId attempt (backoffWait toolId maxRetries attempt rt) = (Inr r, rt1) \<Longrightarrow>
     retryLoop svc key query toolId maxRetries attempt rt = (Inr r, rt1)"
  by (simp add: retryLoop.simps [of svc key query toolId maxRetries attempt rt])

lemma retryLoop_thrown:
  "attempt \<le> maxRetries \<Longrightarrow>
   attemptBody svc key query toolId attempt (backoffWait toolId maxRetries attempt rt) = (Inl e, rt1) \<Longrightarrow>
   logCaught toolId attempt e rt1 = Inl thrown \<Longrightarrow>
     retryLoop svc key query toolId maxRetries attempt rt = (Inl thrown, rt1)"
  by (simp add: retryLoop.simps [of svc key query toolId maxRetries attempt rt])

lemma retryLoop_last:
  "attemptBody svc key query toolId maxRetries (backoffWait toolId maxRetries maxRetries rt) = (Inl e, rt1) \<Longrightarrow>
   logCaught toolId maxRetries e rt1 = Inr rt2 \<Longrightarrow>
     retryLoop svc key query toolId maxRetries maxRetries rt =
       (Inr (failedResult (orElse (Some (errorMessage e)) ''Unknown error occurred'')), rt2)"
  by (simp add: retryLoop.simps [of svc key query toolId maxRetries maxRetries rt])

lemma retryLoop_retry:
  "attempt < maxRetries \<Longrightarrow>
   attemptBody svc key query toolId attempt (backoffWait toolId maxRetries attempt rt) = (Inl e, rt1) \<Longrightarrow>
   logCaught toolId attempt e rt1 = Inr rt2 \<Longrightarrow>
     retryLoop svc key query toolId maxRetries attempt rt =
       retryLoop svc key query toolId maxRetries (Suc attempt) rt2"
  by (simp add: retryLoop.simps [of svc key query toolId maxRetries attempt rt])

lemma no_submit_imp:
  "list_all (\<lambda>e. \<not> isSubmit e) evs \<Longrightarrow> list_all (\<lambda>e. isSubmit e \<longrightarrow> Q e) evs"
  by (simp add: list_all_iff)

text \<open>What the retry loop adds to the runtime: the only submits are this query's.\<close>

lemma retryLoop_effects:
  "retryLoop svc key query toolId n a rt = (r, rt') \<Longrightarrow>
     fetches rt \<le> fetches rt' \<and>
     (\<exists>evs. trace rt' = trace rt @ evs \<and>
            list_all (\<lambda>e. isSubmit e \<longrightarrow> e = Fetch (submitRequest key query)) evs)"
proof (induction svc key query toolId n a rt arbitrary: r rt' rule: retryLoop.induct)
  case (1 svc key query toolId n a rt)
  note run = "1.prems"
  let ?Q = "\<lambda>e. isSubmit e \<longrightarrow> e = Fetch (submitRequest key query)"
  show ?case
  proof (cases "a \<le> n")
    case False
    with run show ?thesis by (simp add: retryLoop_beyond)
  next
    case inRange: True
    obtain res rt1 where
      b: "attemptBody svc key query toolId a (backoffWait toolId n a rt) = (res, rt1)"
      by force
    from attemptBody_effects [OF b] obtain evs where
      bf: "Suc (fetches rt) \<le> fetches rt1"
      and bt: "trace rt1 = trace (backoffWait toolId n a rt) @ Fetch (submitRequest key query) # evs"
      and bn: "list_all (\<lambda>e. \<not> isSubmit e) evs"
      by auto
    have bq: "list_all ?Q evs" by (rule no_submit_imp [OF bn])
    show ?thesis
    proof (cases res)
      case (Inr result)
      with run retryLoop_success [OF inRange, of svc key query toolId rt result rt1] b
      have "rt' = rt1" by simp
      with bf bt bq show ?thesis by simp
    next
      case (Inl e)
      show ?thesis
      proof (cases "logCaught toolId a e rt1")
        case thrown: (Inl th)
        with run retryLoop_thrown [OF inRange, of svc key query toolId rt e rt1 th] b Inl
        have "rt' = rt1" by simp
        with bf bt bq show ?thesis by simp
      next
        case logged: (Inr rt2)
        from logCaught_runtimeD [OF logged] obtain s where
          rt2: "rt2 = emit (LogApiCall toolId a 0 500 s) rt1" by blast
        show ?thesis
        proof (cases "a = n")
          case True
          with run retryLoop_last [of svc key query toolId n rt e rt1 rt2] b Inl logged
          have "rt' = rt2" by simp
          with rt2 bf bt bq show ?thesis by simp
        next
          case False
          with inRange have lt: "a < n" by simp
          from run retryLoop_retry [OF lt, of svc key query toolId rt e rt1 rt2] b Inl logged
          have rec: "retryLoop svc key query toolId n (Suc a) rt2 = (r, rt')"
            by simp
          from "1.IH" [OF inRange b [symmetric] Inl logged False rec] obtain evs' where
            rf: "fetches rt2 \<le> fetches rt'"
            and rt: "trace rt' = trace rt2 @ evs'"
            and rq: "list_all ?Q evs'"
            by blast
          from bf rf rt2 have "fetches rt \<le> fetches rt'" by simp
          moreover from bt rt bq rq rt2
          have "\<exists>evs. trace rt' = trace rt @ evs \<and> list_all ?Q evs" by simp
          ultimately show ?thesis by blast
        qed
      qed
    qed
  qed
qed

text \<open>An attempt within the ceiling starts with its wait, if any, and a submit, and makes
  at least one fetch.\<close>

lemma retryLoop_head:
  assumes inRange: "a \<le> n"
  shows "fetches rt < fetches (snd (retryLoop svc key query toolId n a rt)) \<and>
     (\<exists>evs. trace (snd (retryLoop svc key query toolId n a rt)) =
        trace (backoffWait toolId n a rt) @ Fetch (submitRequest key query) # evs)"
proof -
  obtain res rt1 where
    b: "attemptBody svc key query toolId a (backoffWait toolId n a rt) = (res, rt1)"
    by force
  from attemptBody_effects [OF b] obtain evs where
    bf: "fetches rt < fetches rt1"
    and bt: "trace rt1 = trace (backoffWait toolId n a rt) @ Fetch (submitRequest key query) # evs"
    by auto
  show ?thesis
  proof (cases res)
    case (Inr result)
    with retryLoop_success [OF inRange, of svc key query toolId rt result rt1] b bf bt
    show ?thesis by simp
  next
    case (Inl e)
    show ?thesis
    proof (cases "logCaught toolId a e rt1")
      case thrown: (Inl th)
      with retryLoop_thrown [OF inRange, of svc key query toolId rt e rt1 th] b Inl bf bt
      show ?thesis by simp
    next
      case logged: (Inr rt2)
      from logCaught_runtimeD [OF logged] obtain s where
        rt2: "rt2 = emit (LogApiCall toolId a 0 500 s) rt1" by blast
      show ?thesis
      proof (cases "a = n")
        case True
        with retryLoop_last [of svc key query toolId n rt e rt1 rt2] b Inl logged rt2 bf bt
        show ?thesis by simp
      next
        case False
        with inRange have lt: "a < n" by simp
        obtain r rt' where
          rec: "retryLoop svc key query toolId n (Suc a) rt2 = (r, rt')"
          by force
        from retryLoop_effects [OF rec] obtain evs' where
          "fetches rt2 \<le> fetches rt'" "trace rt' = trace rt2 @ evs'" by blast
        with retryLoop_retry [OF lt, of svc key query toolId rt e rt1 rt2] b Inl logged rt2 bf bt rec
        show ?thesis by simp
      qed
    qed
  qed
qed

lemma logCaught_unserializable:
  "\<not> serializes e \<Longrightarrow> \<exists>t. logCaught toolId a e rt = Inl (newError t)"
  by (auto simp: logCaught_def serializes_def split: sum.splits)

text \<open>Against a service on which every fetch fails at the transport level, with errors
  that the \<^verbatim>\<open>catch\<close> block can log, the loop makes one submit per remaining attempt and
  ends with the last failure.\<close>

lemma retryLoop_all_fail:
  "\<forall>k. transportFailure (fst (svc k)) \<Longrightarrow> a \<le> n \<Longrightarrow>
   \<forall>k\<le>n - a. loggable (fst (svc (fetches rt + k))) \<Longrightarrow>
   retryLoop svc key query toolId n a rt = (r, rt') \<Longrightarrow>
     fetches rt' = fetches rt + (Suc n - a) \<and>
     submits rt' = submits rt + (Suc n - a) \<and>
     r = Inr (failedResult (orElse (Some (submitFailure (fst (svc (fetches rt + (n - a))))))
                              ''Unknown error occurred''))"
proof (induction svc key query toolId n a rt arbitrary: r rt' rule: retryLoop.induct)
  case (1 svc key query toolId n a rt)
  note down = "1.prems"(1) and inRange = "1.prems"(2) and logs = "1.prems"(3)
    and run = "1.prems"(4)
  let ?rt0 = "backoffWait toolId n a rt"
  from down have tf: "transportFailure (fst (svc (fetches ?rt0)))" by blast
  from attemptBody_transportFailure
         [where svc = svc and rt = "?rt0" and key = key and query = query
            and toolId = toolId and a = a, OF tf]
  obtain e rt1 where
    b: "attemptBody svc key query toolId a ?rt0 = (Inl e, rt1)"
    and em: "errorMessage e = submitFailure (fst (svc (fetches rt)))"
    and es: "serializes e = loggable (fst (svc (fetches rt)))"
    and bf: "fetches rt1 = Suc (fetches rt)"
    and bs: "submits rt1 = Suc (submits ?rt0)"
    by auto
  from logs have "loggable (fst (svc (fetches rt + 0)))" by blast
  with es have "serializes e" by simp
  from logCaught_serializes [OF this, of toolId a rt1] obtain s where
    logged: "logCaught toolId a e rt1 = Inr (emit (LogApiCall toolId a 0 500 s) rt1)"
    by blast
  let ?rt2 = "emit (LogApiCall toolId a 0 500 s) rt1"
  have s0: "submits ?rt0 = submits rt" by (simp add: submits_def)
  have s2: "submits ?rt2 = submits rt1" by (simp add: submits_def)
  show ?case
  proof (cases "a = n")
    case True
    with run retryLoop_last [of svc key query toolId n rt e rt1 ?rt2] b logged em
    have "r = Inr (failedResult (orElse (Some (submitFailure (fst (svc (fetches rt)))))
                                  ''Unknown error occurred''))"
      and "rt' = ?rt2" by simp_all
    with True bf bs s0 s2 show ?thesis by simp
  next
    case False
    with inRange have lt: "a < n" by simp
    from run retryLoop_retry [OF lt, of svc key query toolId rt e rt1 ?rt2] b logged
    have rec: "retryLoop svc key query toolId n (Suc a) ?rt2 = (r, rt')"
      by simp
    from lt have next_in: "Suc a \<le> n" by simp
    have logs': "\<forall>k\<le>n - Suc a. loggable (fst (svc (fetches ?rt2 + k)))"
    proof (intro allI impI)
      fix k assume "k \<le> n - Suc a"
      with lt have "Suc k \<le> n - a" by arith
      with logs have "loggable (fst (svc (fetches rt + Suc k)))" by blast
      with bf show "loggable (fst (svc (fetches ?rt2 + k)))" by simp
    qed
    from "1.IH" [OF inRange b [symmetric] refl logged False down next_in logs' rec]
    have f': "fetches rt' = fetches ?rt2 + (Suc n - Suc a)"
      and s': "submits rt' = submits ?rt2 + (Suc n - Suc a)"
      and r': "r = Inr (failedResult (orElse (Some (submitFailure
                (fst (svc (fetches ?rt2 + (n - Suc a))))))
              ''Unknown error occurred''))"
      by simp_all
    from lt have idx: "Suc (fetches rt) + (n - Suc a) = fetches rt + (n - a)" by arith
    from f' bf lt have "fetches rt' = fetches rt + (Suc n - a)" by simp
    moreover from s' s2 bs s0 lt have "submits rt' = submits rt + (Suc n - a)" by simp
    moreover have "fetches ?rt2 + (n - Suc a) = fetches rt + (n - a)"
      using bf idx by simp
    with r'
    have "r = Inr (failedResult (orElse (Some (submitFailure (fst (svc (fetches rt + (n - a))))))
                         ''Unknown error occurred''))"
      by (simp only:)
    ultimately show ?thesis by blast
  qed
qed

text \<open>If one of those failures is an error that the \<^verbatim>\<open>catch\<close> block cannot log, the loop
  throws at it.\<close>

lemma retryLoop_unloggable:
  "\<forall>k. transportFailure (fst (svc k)) \<Longrightarrow> a \<le> n \<Longrightarrow>
   \<not> (\<forall>k\<le>n - a. loggable (fst (svc (fetches rt + k)))) \<Longrightarrow>
   retryLoop svc key query toolId n a rt = (r, rt') \<Longrightarrow>
     (\<exists>e. r = Inl e) \<and> fetches rt' \<le> fetches rt + (Suc n - a)"
proof (induction svc key query toolId n a rt arbitrary: r rt' rule: retryLoop.induct)
  case (1 svc key query toolId n a rt)
  note down = "1.prems"(1) and inRange = "1.prems"(2) and bad = "1.prems"(3)
    and run = "1.prems"(4)
  let ?rt0 = "backoffWait toolId n a rt"
  from down have tf: "transportFailure (fst (svc (fetches ?rt0)))" by blast
  from attemptBody_transportFailure
         [where svc = svc and rt = "?rt0" and key = key and query = query
            and toolId = toolId and a = a, OF tf]
  obtain e rt1 where
    b: "attemptBody svc key query toolId a ?rt0 = (Inl e, rt1)"
    and es: "serializes e = loggable (fst (svc (fetches rt)))"
    and bf: "fetches rt1 = Suc (fetches rt)"
    by auto
  show ?case
  proof (cases "loggable (fst (svc (fetches rt)))")
    case False
    with es have "\<not> serializes e" by simp
    from logCaught_unserializable [OF this, of toolId a rt1] obtain t where
      th: "logCaught toolId a e rt1 = Inl (newError t)" by blast
    from run retryLoop_thrown [OF inRange b th]
    have "r = Inl (newError t)" "rt' = rt1" by simp_all
    with bf inRange show ?thesis by simp
  next
    case True
    with es have "serializes e" by simp
    from logCaught_serializes [OF this, of toolId a rt1] obtain s where
      logged: "logCaught toolId a e rt1 = Inr (emit (LogApiCall toolId a 0 500 s) rt1)"
      by blast
    let ?rt2 = "emit (LogApiCall toolId a 0 500 s) rt1"
    from bad obtain k where k: "k \<le> n - a" "\<not> loggable (fst (svc (fetches rt + k)))"
      by blast
    with True have kpos: "0 < k" by (cases k) auto
    with k inRange have lt: "a < n" by arith
    then have ne: "a \<noteq> n" by simp
    from run retryLoop_retry [OF lt, of svc key query toolId rt e rt1 ?rt2] b logged
    have rec: "retryLoop svc key query toolId n (Suc a) ?rt2 = (r, rt')"
      by simp
    from lt have next_in: "Suc a \<le> n" by simp
    from kpos k lt have "k - 1 \<le> n - Suc a" by arith
    moreover from kpos k bf have "\<not> loggable (fst (svc (fetches ?rt2 + (k - 1))))" by simp
    ultimately have bad': "\<not> (\<forall>j\<le>n - Suc a. loggable (fst (svc (fetches ?rt2 + j))))"
      by blast
    from "1.IH" [OF inRange b [symmetric] refl logged ne down next_in bad' rec]
    have "\<exists>e. r = Inl e" and "fetches rt' \<le> fetches ?rt2 + (Suc n - Suc a)"
      by simp_all
    with bf lt show ?thesis by simp
  qed
qed

text \<open>The errors of a run are the ones that \<^verbatim>\<open>fetch\<close> rejects with and the fresh ones of
  the code, so at a service whose rejections can all be logged every thrown error can.\<close>

lemma serializes_newError [simp]: "serializes (newError m)"
  by (simp add: serializes_def)

lemma fetch_outcomeD: "fetch svc req rt = (out, rt1) \<Longrightarrow> out = fst (svc (fetches rt))"
  by (auto simp: fetch_def)

lemma pollLoop_throws_loggable:
  "\<forall>k. loggable (fst (svc k)) \<Longrightarrow>
   pollLoop svc key toolId rid start d n rt = (Inl e, rt') \<Longrightarrow> serializes e"
proof (induction svc key toolId rid start d n rt arbitrary: e rt' rule: pollLoop.induct)
  case (1 svc key toolId rid start d n rt)
  note logs = "1.prems"(1) and run = "1.prems"(2)
  show ?case
  proof (cases "resp_status d = ''queued'' \<or> resp_status d = ''in_progress''")
    case False
    with run show ?thesis by (simp add: pollLoop_done)
  next
    case waiting: True
    show ?thesis
    proof (cases "MAX_POLL_TIME_MS < now rt - start")
      case True
      with run waiting have "e = newError timeoutMessage" by (simp add: pollLoop_timeout)
      then show ?thesis by simp
    next
      case inTime: False
      obtain out rt1 where
        f: "fetch svc (pollRequest key rid) (wait (Finite POLL_INTERVAL_MS) rt) = (out, rt1)"
        by force
      from logs fetch_outcomeD [OF f] have lo: "loggable out" by simp
      note step = pollLoop_step [OF waiting inTime f, of toolId n]
      show ?thesis
      proof (cases out)
        case (OkJson newData)
        let ?rt2 = "if Suc n mod 6 = 0
                    then logToolExecution toolId
                           (pollingData rid (resp_status newData) (Suc n) (now rt - start)) rt1
                    else rt1"
        from run step OkJson
        have rec: "pollLoop svc key toolId rid start newData (Suc n) ?rt2 = (Inl e, rt')"
          by simp
        from "1.IH" [OF waiting refl inTime f [symmetric] OkJson logs rec] show ?thesis .
      next
        case (Rejected thrown)
        with run step have "e = thrown" by simp
        with lo Rejected show ?thesis by simp
      next
        case (NotOk code body)
        with run step show ?thesis by auto
      next
        case (OkInvalid m)
        with run step show ?thesis by auto
      qed
    qed
  qed
qed

lemma attemptBody_throws_loggable:
  assumes logs: "\<forall>k. loggable (fst (svc k))"
    and run: "attemptBody svc key query toolId a rt = (Inl e, rt')"
  shows "serializes e"
proof -
  obtain out rt1 where f: "fetch svc (submitRequest key query) rt = (out, rt1)"
    by force
  from logs fetch_outcomeD [OF f] have lo: "loggable out" by simp
  note step = attemptBody_step [OF f, of toolId a]
  show ?thesis
  proof (cases out)
    case (Rejected thrown)
    with run step have "e = thrown" by simp
    with lo Rejected show ?thesis by simp
  next
    case (NotOk code body)
    with run step show ?thesis by auto
  next
    case (OkInvalid m)
    with run step show ?thesis by auto
  next
    case (OkJson submitData)
    let ?rt2 = "logToolExecution toolId
                  (submittedData (resp_id submitData) (resp_status submitData)) rt1"
    obtain pres rt3 where
      p: "pollLoop svc key toolId (resp_id submitData) (now rt1) submitData 0 ?rt2 = (pres, rt3)"
      by force
    show ?thesis
    proof (cases pres)
      case (Inl thrown)
      with run step OkJson p have "e = thrown" by simp
      with pollLoop_throws_loggable [OF logs] p Inl show ?thesis by blast
    next
      case (Inr fin)
      obtain pollData pollCount where d: "fin = (pollData, pollCount)" by force
      from run step OkJson p Inr d
      have "handleCompletion toolId a (now rt) (resp_id submitData) pollData pollCount rt3 =
          (Inl e, rt')"
        by simp
      then have "\<exists>m. e = newError m"
        by (auto simp: handleCompletion_def Let_def split: if_splits option.splits)
      then show ?thesis by auto
    qed
  qed
qed

text \<open>At such a service the loop returns a result, for every ceiling: a completed one
  with its content, or a failed one with a non-empty error message.\<close>

lemma retryLoop_result:
  "\<forall>k. loggable (fst (svc k)) \<Longrightarrow>
   retryLoop svc key query toolId n a rt = (out, rt') \<Longrightarrow>
     (\<exists>r. out = Inr r \<and>
        (res_status r = Completed \<and> res_content r \<noteq> [] \<or>
         res_status r = Failed \<and> (\<exists>m. res_error r = Some m \<and> m \<noteq> [])))"
proof (induction svc key query toolId n a rt arbitrary: out rt' rule: retryLoop.induct)
  case (1 svc key query toolId n a rt)
  note logs = "1.prems"(1) and run = "1.prems"(2)
  show ?case
  proof (cases "a \<le> n")
    case False
    with run show ?thesis by (auto simp: retryLoop_beyond failedResult_def)
  next
    case inRange: True
    obtain res rt1 where
      b: "attemptBody svc key query toolId a (backoffWait toolId n a rt) = (res, rt1)"
      by force
    show ?thesis
    proof (cases res)
      case (Inr result)
      with run retryLoop_success [OF inRange, of svc key query toolId rt result rt1] b
      have "out = Inr result" by simp
      moreover from attemptBody_effects [OF b] Inr
      have "res_status result = Completed \<and> res_content result \<noteq> []" by simp
      ultimately show ?thesis by blast
    next
      case (Inl e)
      with b have b': "attemptBody svc key query toolId a (backoffWait toolId n a rt) = (Inl e, rt1)"
        by simp
      from attemptBody_throws_loggable [OF logs b'] have "serializes e" .
      from logCaught_serializes [OF this, of toolId a rt1] obtain s where
        logged: "logCaught toolId a e rt1 = Inr (emit (LogApiCall toolId a 0 500 s) rt1)"
        by blast
      show ?thesis
      proof (cases "a = n")
        case True
        with run retryLoop_last [of svc key query toolId n rt e rt1] b' logged
        have "out = Inr (failedResult (orElse (Some (errorMessage e)) ''Unknown error occurred''))"
          by simp
        then show ?thesis by (simp add: failedResult_def)
      next
        case False
        with inRange have lt: "a < n" by simp
        from run retryLoop_retry [OF lt b' logged]
        have rec: "retryLoop svc key query toolId n (Suc a)
                     (emit (LogApiCall toolId a 0 500 s) rt1) = (out, rt')"
          by simp
        from "1.IH" [OF inRange b [symmetric] Inl logged False logs rec] show ?thesis .
      qed
    qed
  qed
qed

subsection \<open>Identity keys\<close>

text \<open>Identity stability (C7).
  The identity key depends only on the entity: two events of the same variant with
  the same run id (and, for section status events, the same section id) get the same
  key whatever their timestamps and other fields are, and two section status events
  of one run with different section ids get different keys. The key is the id under
  which \<open>formatAsDataPart\<close> sends the event.\<close>

theorem createPartId_stable_and_injective:
  "(sameEntity e1 e2 \<longrightarrow> createPartId e1 = createPartId e2) \<and>
   (ss_runId a = ss_runId b \<and> sectionId a \<noteq> sectionId b \<longrightarrow>
      createPartId (SectionStatusEvent a) \<noteq> createPartId (SectionStatusEvent b)) \<and>
   part_id (formatAsDataPart e1) = createPartId e1"
proof (intro conjI)
  show "sameEntity e1 e2 \<longrightarrow> createPartId e1 = createPartId e2"
    by (cases e1; cases e2) simp_all
next
  show "ss_runId a = ss_runId b \<and> sectionId a \<noteq> sectionId b \<longrightarrow>
      createPartId (SectionStatusEvent a) \<noteq> createPartId (SectionStatusEvent b)"
    by simp
next
  show "part_id (formatAsDataPart e1) = createPartId e1"
    by (simp add: formatAsDataPart_def)
qed

theorem createPartId_stable_and_injective_witness:
  "sameEntity
     (SectionStatusEvent (createSectionStatus ''run-1'' ''section-1'' ''History'' Running None None 10))
     (SectionStatusEvent (createSectionStatus ''run-1'' ''section-1'' ''History'' Done None None 99)) \<and>
   createPartId
     (SectionStatusEvent (createSectionStatus ''run-1'' ''section-1'' ''History'' Running None None 10)) =
   createPartId
     (SectionStatusEvent (createSectionStatus ''run-1'' ''section-1'' ''History'' Done None None 99)) \<and>
   createPartId
     (SectionStatusEvent (createSectionStatus ''run-1'' ''section-1'' ''History'' Running None None 10)) \<noteq>
   createPartId
     (SectionStatusEvent (createSectionStatus ''run-1'' ''section-2'' ''Trade'' Running None None 10))"
  using createPartId_stable_and_injective
          [of "SectionStatusEvent (createSectionStatus ''run-1'' ''section-1'' ''History'' Running None None 10)"
              "SectionStatusEvent (createSectionStatus ''run-1'' ''section-1'' ''History'' Done None None 99)"
              "createSectionStatus ''run-1'' ''section-1'' ''History'' Running None None 10"
              "createSectionStatus ''run-1'' ''section-2'' ''Trade'' Running None None 10"]
  by (simp add: createSectionStatus_def)

subsection \<open>Backoff\<close>

text \<open>The double of line 45 is exact up to attempt 1015 and infinite from attempt 1016.\<close>

lemma backoffMs_finite:
  assumes "1 \<le> n" and "n \<le> 1015"
  shows "backoffMs n = Finite (1000 * 2 ^ (n - 1))"
proof -
  from assms have e: "n - 1 < 1024" by simp
  then have p: "(2::nat) ^ (n - 1) < 2 ^ 1024"
    by (simp only: power_strict_increasing_iff one_less_numeral_iff semiring_norm)
  have "(2::nat) ^ (n - 1) * 1000 < 2 ^ (n - 1) * 2 ^ 10" by simp
  also have "\<dots> = 2 ^ (n - 1 + 10)" by (simp only: power_add)
  also from assms have "\<dots> \<le> 2 ^ 1024"
    by (intro power_increasing) simp_all
  finally have q: "(2::nat) ^ (n - 1) * 1000 < 2 ^ 1024" .
  from p q show ?thesis
    by (simp only: backoffMs_def mathPow2_def times1000_def DOUBLE_LIMIT_def if_True
                   JsNumber.case mult.commute)
qed

lemma backoffMs_overflow:
  assumes "1016 \<le> n"
  shows "backoffMs n = Infinity"
proof (cases "(2::nat) ^ (n - 1) < 2 ^ 1024")
  case False
  then show ?thesis
    by (simp only: backoffMs_def mathPow2_def times1000_def DOUBLE_LIMIT_def if_False
                   JsNumber.case)
next
  case True
  have "(2::nat) ^ 1024 = 2 ^ (1015 + 9)" by simp
  also have "\<dots> = 2 ^ 1015 * 2 ^ 9" by (simp only: power_add)
  also have "\<dots> \<le> 2 ^ 1015 * 1000" by simp
  also from assms have "\<dots> \<le> 2 ^ (n - 1) * 1000"
    by (intro mult_right_mono power_increasing) simp_all
  finally have "\<not> (2::nat) ^ (n - 1) * 1000 < 2 ^ 1024" by simp
  with True show ?thesis
    by (simp only: backoffMs_def mathPow2_def times1000_def DOUBLE_LIMIT_def if_True if_False
                   JsNumber.case)
qed

text \<open>The timer takes the delay as it is up to attempt 22 (\<open>1000 * 2 ^ 21\<close> is below
  \<open>2 ^ 31\<close>) and replaces it by 1 ms from attempt 23.\<close>

lemma timerDelay_backoff:
  assumes "2 \<le> n"
  shows "timerDelay (backoffMs n) = (if n \<le> 22 then 1000 * 2 ^ (n - 1) else 1)"
proof (cases "n \<le> 22")
  case True
  with assms have b: "backoffMs n = Finite (1000 * 2 ^ (n - 1))"
    by (intro backoffMs_finite) simp_all
  from True have "(2::nat) ^ (n - 1) \<le> 2 ^ 21"
    by (intro power_increasing) simp_all
  then have "1000 * (2::nat) ^ (n - 1) \<le> 2147483647" by simp
  moreover have "1 \<le> 1000 * (2::nat) ^ (n - 1)" by simp
  ultimately show ?thesis using True b
    by (simp only: timerDelay_def TIMEOUT_MAX_def JsNumber.case if_True simp_thms)
next
  case late: False
  show ?thesis
  proof (cases "n \<le> 1015")
    case True
    with assms have b: "backoffMs n = Finite (1000 * 2 ^ (n - 1))"
      by (intro backoffMs_finite) simp_all
    from late have "(2::nat) ^ 22 \<le> 2 ^ (n - 1)"
      by (intro power_increasing) simp_all
    then have "\<not> 1000 * (2::nat) ^ (n - 1) \<le> 2147483647" by simp
    with late b show ?thesis
      by (simp only: timerDelay_def TIMEOUT_MAX_def JsNumber.case if_False simp_thms)
  next
    case False
    then have "backoffMs n = Infinity" by (intro backoffMs_overflow) simp
    with late show ?thesis by (simp add: timerDelay_def)
  qed
qed

lemma backoffMs_2 [simp]: "backoffMs 2 = Finite 2000"
  using backoffMs_finite [of 2] by simp

lemma backoffMs_3 [simp]: "backoffMs 3 = Finite 4000"
  using backoffMs_finite [of 3] by simp

lemma timerDelay_small [simp]:
  "timerDelay (Finite 2000) = 2000" "timerDelay (Finite 4000) = 4000"
  by (simp_all add: timerDelay_def TIMEOUT_MAX_def)

lemma backoffMs_Suc [simp]:
  "backoffMs (Suc (Suc 0)) = Finite 2000" "backoffMs (Suc (Suc (Suc 0))) = Finite 4000"
  using backoffMs_finite [of "Suc (Suc 0)"] backoffMs_finite [of "Suc (Suc (Suc 0))"]
  by simp_all

text \<open>Backoff delay (C8), as the code has it.
  The code has no delay function: the loop computes the backoff in line, as a double,
  before every attempt \<open>n\<close> after the first, and the ceiling is the loop's. For
  \<open>2 \<le> n \<le> 1015\<close> that double is \<open>1000 * 2 ^ (n - 1)\<close>, from \<open>n = 1016\<close> it is
  infinite. The loop logs it and hands it to the timer, which waits that long up to
  \<open>n = 22\<close> and 1 ms from \<open>n = 23\<close>; then comes the submit. Before attempt 1 there is
  no backoff and no wait, and an attempt beyond the ceiling is refused with no wait and
  no request.\<close>

theorem backoff_delay:
  "(2 \<le> n \<and> n \<le> 1015 \<longrightarrow> backoffMs n = Finite (1000 * 2 ^ (n - 1))) \<and>
   (1016 \<le> n \<longrightarrow> backoffMs n = Infinity) \<and>
   (2 \<le> n \<longrightarrow> timerDelay (backoffMs n) = (if n \<le> 22 then 1000 * 2 ^ (n - 1) else 1)) \<and>
   (2 \<le> n \<and> n \<le> maxRetries \<longrightarrow>
      (\<exists>evs. trace (snd (retryLoop svc key query toolId maxRetries n rt)) =
         trace rt @ toolLogged toolId (retryingData n maxRetries) (now rt) #
                    Sleep (timerDelay (backoffMs n)) # Fetch (submitRequest key query) # evs) \<and>
      parameters (retryingData n maxRetries) = Some (RetryParameters (backoffMs n))) \<and>
   (1 \<le> maxRetries \<longrightarrow>
      (\<exists>evs. trace (snd (retryLoop svc key query toolId maxRetries 1 rt)) =
         trace rt @ Fetch (submitRequest key query) # evs)) \<and>
   (maxRetries < n \<longrightarrow>
      retryLoop svc key query toolId maxRetries n rt =
        (Inr (failedResult ''All retry attempts failed''), rt))"
proof (intro conjI impI)
  assume "2 \<le> n \<and> n \<le> 1015"
  then show "backoffMs n = Finite (1000 * 2 ^ (n - 1))"
    by (intro backoffMs_finite) simp_all
next
  assume "1016 \<le> n"
  then show "backoffMs n = Infinity" by (rule backoffMs_overflow)
next
  assume "2 \<le> n"
  then show "timerDelay (backoffMs n) = (if n \<le> 22 then 1000 * 2 ^ (n - 1) else 1)"
    by (rule timerDelay_backoff)
next
  assume h: "2 \<le> n \<and> n \<le> maxRetries"
  then have "n \<le> maxRetries" by simp
  from retryLoop_head [OF this, of rt svc key query toolId] obtain evs where
    "trace (snd (retryLoop svc key query toolId maxRetries n rt)) =
       trace (backoffWait toolId maxRetries n rt) @ Fetch (submitRequest key query) # evs"
    by blast
  with h show "\<exists>evs. trace (snd (retryLoop svc key query toolId maxRetries n rt)) =
         trace rt @ toolLogged toolId (retryingData n maxRetries) (now rt) #
                    Sleep (timerDelay (backoffMs n)) # Fetch (submitRequest key query) # evs"
    by simp
next
  show "parameters (retryingData n maxRetries) = Some (RetryParameters (backoffMs n))"
    by (simp add: retryingData_def)
next
  assume "1 \<le> maxRetries"
  from retryLoop_head [OF this, of rt svc key query toolId]
  show "\<exists>evs. trace (snd (retryLoop svc key query toolId maxRetries 1 rt)) =
         trace rt @ Fetch (submitRequest key query) # evs"
    by simp
next
  assume "maxRetries < n"
  then show "retryLoop svc key query toolId maxRetries n rt =
        (Inr (failedResult ''All retry attempts failed''), rt)"
    by (rule retryLoop_beyond)
qed

theorem backoff_delay_witness:
  "backoffMs 2 = Finite 2000 \<and> timerDelay (backoffMs 2) = 2000 \<and>
   (\<exists>evs. trace (snd (retryLoop silentlyDown (Some ''sk'') ''q'' ''tool'' 3 2 startRuntime)) =
      toolLogged ''tool'' (retryingData 2 3) 0 # Sleep 2000 #
        Fetch (submitRequest (Some ''sk'') ''q'') # evs) \<and>
   parameters (retryingData 2 3) = Some (RetryParameters (Finite 2000)) \<and>
   (\<exists>evs. trace (snd (retryLoop silentlyDown (Some ''sk'') ''q'' ''tool'' 3 1 startRuntime)) =
      Fetch (submitRequest (Some ''sk'') ''q'') # evs) \<and>
   timerDelay (backoffMs 23) = 1 \<and>
   retryLoop silentlyDown (Some ''sk'') ''q'' ''tool'' 3 4 startRuntime =
     (Inr (failedResult ''All retry attempts failed''), startRuntime)"
proof -
  note first = backoff_delay [of 2 3 silentlyDown "Some ''sk''" "''q''" "''tool''" startRuntime]
  note late = backoff_delay [of 23 3 silentlyDown "Some ''sk''" "''q''" "''tool''" startRuntime,
                             THEN conjunct2, THEN conjunct2, THEN conjunct1]
  note beyond = backoff_delay [of 4 3 silentlyDown "Some ''sk''" "''q''" "''tool''" startRuntime]
  from late have clamped: "timerDelay (backoffMs 23) = 1" by simp
  from first beyond have rest:
    "backoffMs 2 = Finite 2000 \<and> timerDelay (backoffMs 2) = 2000 \<and>
     (\<exists>evs. trace (snd (retryLoop silentlyDown (Some ''sk'') ''q'' ''tool'' 3 2 startRuntime)) =
        toolLogged ''tool'' (retryingData 2 3) 0 # Sleep 2000 #
          Fetch (submitRequest (Some ''sk'') ''q'') # evs) \<and>
     parameters (retryingData 2 3) = Some (RetryParameters (Finite 2000)) \<and>
     (\<exists>evs. trace (snd (retryLoop silentlyDown (Some ''sk'') ''q'' ''tool'' 3 1 startRuntime)) =
        Fetch (submitRequest (Some ''sk'') ''q'') # evs) \<and>
     retryLoop silentlyDown (Some ''sk'') ''q'' ''tool'' 3 4 startRuntime =
       (Inr (failedResult ''All retry attempts failed''), startRuntime)"
    by (simp add: startRuntime_def)
  from rest clamped show ?thesis by blast
qed

text \<open>At attempt 1016 the backoff is not \<open>1000 * 2 ^ 1015\<close> but infinite, and the wait
  before attempt 23 lasts 1 ms.\<close>

theorem backoff_delay_counterexample:
  "backoffMs 1016 = Infinity \<and> backoffMs 1016 \<noteq> Finite (1000 * 2 ^ 1015) \<and>
   timerDelay (backoffMs 23) = 1"
  using backoffMs_overflow [of 1016] timerDelay_backoff [of 23] by simp

subsection \<open>The retry loop\<close>

text \<open>Evaluation of the scenarios.\<close>

lemmas run_defs =
  executeDeepResearch_def retryLoop.simps attemptBody_def pollLoop.simps handleCompletion_def
  extractContent_def fetch_def scripted_def emit_def sleep_def wait_def backoffWait_def
  logCaught_def logToolExecution_def tokenUsageOf_def failedResult_def newError_def Let_def
  MAX_POLL_TIME_MS_def POLL_INTERVAL_MS_def timerDelay_def TIMEOUT_MAX_def

lemmas scenario_defs =
  startRuntime_def bareResponse_def reportResponse_def failedThenOk_def slowThenOk_def
  pollFailedThenOk_def opaqueDown_def unavailable_def silentlyDown_def

text \<open>Retry ceiling (C2), as the code has it.
  If every fetch fails at the transport level (the promise rejects or the response is
  not 2xx), with errors that the \<^verbatim>\<open>catch\<close> block can log, \<open>executeDeepResearch\<close> with
  ceiling 3 makes exactly three fetches, all of them submits, and returns a failed
  result whose error is the message of the third failure, or
  \<^verbatim>\<open>Unknown error occurred\<close> when that message is empty.\<close>

theorem retry_ceiling:
  "\<forall>k. transportFailure (fst (svc k)) \<Longrightarrow>
   \<forall>k<3. loggable (fst (svc (fetches rt + k))) \<Longrightarrow>
   executeDeepResearch svc key query toolId 3 rt = (out, rt') \<Longrightarrow>
     fetches rt' = fetches rt + 3 \<and> submits rt' = submits rt + 3 \<and>
     (\<exists>r. out = Inr r \<and> res_status r = Failed \<and>
          res_error r = Some (orElse (Some (submitFailure (fst (svc (fetches rt + 2)))))
                                ''Unknown error occurred''))"
proof -
  assume down: "\<forall>k. transportFailure (fst (svc k))"
    and logs: "\<forall>k<3. loggable (fst (svc (fetches rt + k)))"
    and run: "executeDeepResearch svc key query toolId 3 rt = (out, rt')"
  from run have loop: "retryLoop svc key query toolId 3 1 rt = (out, rt')"
    by (simp add: executeDeepResearch_def)
  from logs have window: "\<forall>k\<le>3 - 1. loggable (fst (svc (fetches rt + k)))"
    by simp
  from retryLoop_all_fail [OF down _ window loop]
  show ?thesis by (simp add: failedResult_def)
qed

theorem retry_ceiling_witness:
  "(\<forall>k. transportFailure (fst (unavailable k))) \<and>
   loggable (fst (unavailable 0)) \<and> loggable (fst (unavailable 1)) \<and>
   loggable (fst (unavailable 2)) \<and>
   fetches (snd (executeDeepResearch unavailable (Some ''sk'') ''q'' ''tool'' 3 startRuntime)) = 3 \<and>
   submits (snd (executeDeepResearch unavailable (Some ''sk'') ''q'' ''tool'' 3 startRuntime)) = 3 \<and>
   (\<exists>r. fst (executeDeepResearch unavailable (Some ''sk'') ''q'' ''tool'' 3 startRuntime) = Inr r \<and>
        res_status r = Failed \<and> res_error r = Some ''OpenAI API error (503): {}'')"
proof -
  have down: "\<forall>k. transportFailure (fst (unavailable k))"
    by (simp add: unavailable_def scripted_def)
  have logs: "\<forall>k<3. loggable (fst (unavailable (fetches startRuntime + k)))"
    by (simp add: unavailable_def scripted_def)
  have msg: "\<And>k. submitFailure (fst (unavailable k)) = ''OpenAI API error (503): {}''"
    by (simp add: unavailable_def scripted_def showNat.simps digit_def)
  have start: "fetches startRuntime = 0" "submits startRuntime = 0"
    by (simp_all add: startRuntime_def submits_def)
  from retry_ceiling [of unavailable startRuntime "Some ''sk''" "''q''" "''tool''",
                      OF down logs prod.collapse [symmetric]] down msg start
  show ?thesis by (simp add: unavailable_def scripted_def)
qed

text \<open>At a service that rejects every fetch with an empty message the error cause
  is not the message of the last error.\<close>

theorem retry_ceiling_counterexample:
  "transportFailure (fst (silentlyDown 0)) \<and> transportFailure (fst (silentlyDown 1)) \<and>
   transportFailure (fst (silentlyDown 2)) \<and>
   submitFailure (fst (silentlyDown 2)) = [] \<and>
   fst (executeDeepResearch silentlyDown (Some ''sk'') ''q'' ''tool'' 3 startRuntime) =
     Inr (failedResult ''Unknown error occurred'') \<and>
   res_error (failedResult ''Unknown error occurred'') = Some ''Unknown error occurred''"
proof -
  have down: "\<forall>k. transportFailure (fst (silentlyDown k))"
    by (simp add: silentlyDown_def scripted_def)
  have logs: "\<forall>k\<le>3 - 1. loggable (fst (silentlyDown (fetches startRuntime + k)))"
    by (simp add: silentlyDown_def scripted_def serializes_def)
  have msg: "\<And>k. submitFailure (fst (silentlyDown k)) = []"
    by (simp add: silentlyDown_def scripted_def newError_def)
  have start: "fetches startRuntime = 0"
    by (simp add: startRuntime_def)
  have "retryLoop silentlyDown (Some ''sk'') ''q'' ''tool'' 3 1 startRuntime =
      (fst (executeDeepResearch silentlyDown (Some ''sk'') ''q'' ''tool'' 3 startRuntime),
       snd (executeDeepResearch silentlyDown (Some ''sk'') ''q'' ''tool'' 3 startRuntime))"
    by (simp add: executeDeepResearch_def)
  from retryLoop_all_fail [OF down _ logs this] down msg start
  show ?thesis by (simp add: failedResult_def)
qed

text \<open>Totality of \<open>executeDeepResearch\<close> (C10): the run at which it fails.
  Every fetch is rejected with an error whose cause is an object that
  \<^verbatim>\<open>JSON.stringify\<close> refuses. The first attempt throws that error, the \<^verbatim>\<open>catch\<close> block
  catches it, and \<^verbatim>\<open>serializeError\<close>, called in the argument of the log call at the head
  of the block, throws in its turn: \<open>executeDeepResearch\<close> throws after one request,
  where the ceiling allows three, and returns no result.\<close>

theorem executeDeepResearch_throws:
  "fst (opaqueDown 0) =
     Rejected (JsError ''fetch failed''
                 (PlainObject None (Inl ''Do not know how to serialize a BigInt''))) \<and>
   executeDeepResearch opaqueDown (Some ''sk'') ''q'' ''tool'' 3 startRuntime =
     (Inl (newError ''Do not know how to serialize a BigInt''),
      \<lparr>now = 0, fetches = 1, trace = [Fetch (submitRequest (Some ''sk'') ''q'')]\<rparr>)"
  by (simp add: run_defs scenario_defs)

text \<open>Retries (C1), as the code has it.
  The loop does not look at the cause of an error. An attempt whose polling loop ends
  with a response of status \<^verbatim>\<open>failed\<close> or \<^verbatim>\<open>cancelled\<close>, be it the reply to the submit
  or to a later poll, throws; so does an attempt whose polling loop throws, as it does
  when the deadline has passed. After any thrown error that the \<^verbatim>\<open>catch\<close> block can log,
  an attempt below the ceiling is followed by the next attempt, which makes at least one
  more fetch; only such an error of the attempt at the ceiling ends the job, as failed
  with that error's message, or with \<^verbatim>\<open>Unknown error occurred\<close> when the message is
  empty. The errors that the code itself creates can all be logged.\<close>

theorem retry_after_any_error:
  "(fetch svc (submitRequest key query) rts = (OkJson submitData, rtf) \<and>
    pollLoop svc key toolId (resp_id submitData) (now rtf) submitData 0
      (logToolExecution toolId (submittedData (resp_id submitData) (resp_status submitData)) rtf) =
      (Inr (d, n), rtp) \<and>
    (resp_status d = ''failed'' \<or> resp_status d = ''cancelled'') \<longrightarrow>
      attemptBody svc key query toolId attempt rts =
        (Inl (newError (orElse (error_message d) (''Research '' @ resp_status d))), rtp)) \<and>
   (fetch svc (submitRequest key query) rts = (OkJson submitData, rtf) \<and>
    pollLoop svc key toolId (resp_id submitData) (now rtf) submitData 0
      (logToolExecution toolId (submittedData (resp_id submitData) (resp_status submitData)) rtf) =
      (Inl e, rtp) \<longrightarrow>
      attemptBody svc key query toolId attempt rts = (Inl e, rtp)) \<and>
   (attemptBody svc key query toolId attempt (backoffWait toolId maxRetries attempt rt) = (Inl e, rte) \<and>
    serializeError (asValue e) = Inr s \<and> attempt < maxRetries \<longrightarrow>
      retryLoop svc key query toolId maxRetries attempt rt =
        retryLoop svc key query toolId maxRetries (Suc attempt)
          (emit (LogApiCall toolId attempt 0 500 s) rte) \<and>
      fetches rte < fetches (snd (retryLoop svc key query toolId maxRetries attempt rt))) \<and>
   (attemptBody svc key query toolId maxRetries (backoffWait toolId maxRetries maxRetries rt) =
      (Inl e, rte) \<and>
    serializeError (asValue e) = Inr s \<longrightarrow>
      retryLoop svc key query toolId maxRetries maxRetries rt =
        (Inr (failedResult (orElse (Some (errorMessage e)) ''Unknown error occurred'')),
         emit (LogApiCall toolId maxRetries 0 500 s) rte)) \<and>
   serializeError (asValue (newError m)) = Inr (Some (Serialized m None))"
proof (intro conjI impI)
  assume h: "fetch svc (submitRequest key query) rts = (OkJson submitData, rtf) \<and>
    pollLoop svc key toolId (resp_id submitData) (now rtf) submitData 0
      (logToolExecution toolId (submittedData (resp_id submitData) (resp_status submitData)) rtf) =
      (Inr (d, n), rtp) \<and>
    (resp_status d = ''failed'' \<or> resp_status d = ''cancelled'')"
  then have f: "fetch svc (submitRequest key query) rts = (OkJson submitData, rtf)"
    and p: "pollLoop svc key toolId (resp_id submitData) (now rtf) submitData 0
      (logToolExecution toolId (submittedData (resp_id submitData) (resp_status submitData)) rtf) =
      (Inr (d, n), rtp)"
    and st: "resp_status d = ''failed'' \<or> resp_status d = ''cancelled''"
    by simp_all
  from attemptBody_step [OF f, of toolId attempt] p st
  show "attemptBody svc key query toolId attempt rts =
        (Inl (newError (orElse (error_message d) (''Research '' @ resp_status d))), rtp)"
    by (simp add: handleCompletion_def)
next
  assume h: "fetch svc (submitRequest key query) rts = (OkJson submitData, rtf) \<and>
    pollLoop svc key toolId (resp_id submitData) (now rtf) submitData 0
      (logToolExecution toolId (submittedData (resp_id submitData) (resp_status submitData)) rtf) =
      (Inl e, rtp)"
  then have f: "fetch svc (submitRequest key query) rts = (OkJson submitData, rtf)"
    and p: "pollLoop svc key toolId (resp_id submitData) (now rtf) submitData 0
      (logToolExecution toolId (submittedData (resp_id submitData) (resp_status submitData)) rtf) =
      (Inl e, rtp)"
    by simp_all
  from attemptBody_step [OF f, of toolId attempt] p
  show "attemptBody svc key query toolId attempt rts = (Inl e, rtp)"
    by simp
next
  assume h: "attemptBody svc key query toolId attempt (backoffWait toolId maxRetries attempt rt) =
      (Inl e, rte) \<and> serializeError (asValue e) = Inr s \<and> attempt < maxRetries"
  then have b: "attemptBody svc key query toolId attempt (backoffWait toolId maxRetries attempt rt) =
      (Inl e, rte)"
    and ser: "serializeError (asValue e) = Inr s" and lt: "attempt < maxRetries"
    by simp_all
  from retryLoop_retry [OF lt b logCaught_Inr [OF ser]]
  show step: "retryLoop svc key query toolId maxRetries attempt rt =
        retryLoop svc key query toolId maxRetries (Suc attempt)
          (emit (LogApiCall toolId attempt 0 500 s) rte)" .
  from lt have "Suc attempt \<le> maxRetries" by simp
  from retryLoop_head [OF this, of "emit (LogApiCall toolId attempt 0 500 s) rte"
                         svc key query toolId] step
  show "fetches rte < fetches (snd (retryLoop svc key query toolId maxRetries attempt rt))"
    by simp
next
  assume h: "attemptBody svc key query toolId maxRetries
      (backoffWait toolId maxRetries maxRetries rt) = (Inl e, rte) \<and>
    serializeError (asValue e) = Inr s"
  then have b: "attemptBody svc key query toolId maxRetries
      (backoffWait toolId maxRetries maxRetries rt) = (Inl e, rte)"
    and ser: "serializeError (asValue e) = Inr s"
    by simp_all
  from retryLoop_last [OF b logCaught_Inr [OF ser]]
  show "retryLoop svc key query toolId maxRetries maxRetries rt =
        (Inr (failedResult (orElse (Some (errorMessage e)) ''Unknown error occurred'')),
         emit (LogApiCall toolId maxRetries 0 500 s) rte)" .
next
  show "serializeError (asValue (newError m)) = Inr (Some (Serialized m None))"
    by simp
qed

text \<open>The first job is queued and its first poll finds it \<^verbatim>\<open>failed\<close>: the first attempt
  throws \<^verbatim>\<open>Research failed\<close> after two fetches; with the ceiling 3 the loop goes on to
  attempt 2, with the ceiling 1 it returns the failed result.\<close>

theorem retry_after_any_error_witness:
  "fst (attemptBody pollFailedThenOk (Some ''sk'') ''q'' ''tool'' 1 startRuntime) =
     Inl (newError ''Research failed'') \<and>
   fetches (snd (attemptBody pollFailedThenOk (Some ''sk'') ''q'' ''tool'' 1 startRuntime)) = 2 \<and>
   retryLoop pollFailedThenOk (Some ''sk'') ''q'' ''tool'' 3 1 startRuntime =
     retryLoop pollFailedThenOk (Some ''sk'') ''q'' ''tool'' 3 (Suc 1)
       (emit (LogApiCall ''tool'' 1 0 500 (Some (Serialized ''Research failed'' None)))
          (snd (attemptBody pollFailedThenOk (Some ''sk'') ''q'' ''tool'' 1 startRuntime))) \<and>
   fetches (snd (attemptBody pollFailedThenOk (Some ''sk'') ''q'' ''tool'' 1 startRuntime))
     < fetches (snd (retryLoop pollFailedThenOk (Some ''sk'') ''q'' ''tool'' 3 1 startRuntime)) \<and>
   retryLoop pollFailedThenOk (Some ''sk'') ''q'' ''tool'' 1 1 startRuntime =
     (Inr (failedResult ''Research failed''),
      emit (LogApiCall ''tool'' 1 0 500 (Some (Serialized ''Research failed'' None)))
        (snd (attemptBody pollFailedThenOk (Some ''sk'') ''q'' ''tool'' 1 startRuntime)))"
proof -
  let ?sub = "bareResponse ''resp_1'' ''queued''"
  let ?d = "bareResponse ''resp_1'' ''failed''"
  let ?rtf = "snd (fetch pollFailedThenOk (submitRequest (Some ''sk'') ''q'') startRuntime)"
  let ?poll = "pollLoop pollFailedThenOk (Some ''sk'') ''tool'' (resp_id ?sub) (now ?rtf) ?sub 0
      (logToolExecution ''tool'' (submittedData (resp_id ?sub) (resp_status ?sub)) ?rtf)"
  let ?rtp = "snd ?poll"
  let ?e = "newError ''Research failed''"
  let ?s = "Some (Serialized ''Research failed'' None)"
  have f: "fetch pollFailedThenOk (submitRequest (Some ''sk'') ''q'') startRuntime =
      (OkJson ?sub, ?rtf)"
    by (simp add: prod_eq_iff pollFailedThenOk_def scripted_def startRuntime_def)
  have p: "?poll = (Inr (?d, 1), ?rtp)"
    by (simp add: prod_eq_iff pollLoop.simps fetch_def scripted_def emit_def sleep_def wait_def
                  logToolExecution_def Let_def MAX_POLL_TIME_MS_def pollFailedThenOk_def
                  startRuntime_def bareResponse_def)
  have pf: "fetches ?rtp = 2"
    by (simp add: pollLoop.simps fetch_def scripted_def emit_def sleep_def wait_def
                  logToolExecution_def Let_def MAX_POLL_TIME_MS_def pollFailedThenOk_def
                  startRuntime_def bareResponse_def)
  have st: "resp_status ?d = ''failed'' \<or> resp_status ?d = ''cancelled''"
    by (simp add: bareResponse_def)
  have cause: "orElse (error_message ?d) (''Research '' @ resp_status ?d) = ''Research failed''"
    by (simp add: bareResponse_def)
  have first: "\<And>n. backoffWait ''tool'' n 1 startRuntime = startRuntime"
    by (simp add: backoffWait_def)
  note inst = retry_after_any_error
    [where svc = pollFailedThenOk and key = "Some ''sk''" and query = "''q''"
       and toolId = "''tool''" and attempt = 1 and rts = startRuntime and rt = startRuntime
       and submitData = "?sub" and rtf = "?rtf" and d = "?d" and n = 1 and rtp = "?rtp"
       and e = "?e" and rte = "?rtp" and s = "?s" and m = "''Research failed''"]
  have reply: "fetch pollFailedThenOk (submitRequest (Some ''sk'') ''q'') startRuntime =
      (OkJson ?sub, ?rtf) \<and> ?poll = (Inr (?d, 1), ?rtp) \<and>
      (resp_status ?d = ''failed'' \<or> resp_status ?d = ''cancelled'')"
    using f p st by (intro conjI)
  note thrown0 = inst [where maxRetries = 3, THEN conjunct1, THEN mp, OF reply]
  with cause
  have whole: "attemptBody pollFailedThenOk (Some ''sk'') ''q'' ''tool'' 1 startRuntime =
      (Inl ?e, ?rtp)"
    by (simp only:)
  note ser = inst [where maxRetries = 3, THEN conjunct2, THEN conjunct2, THEN conjunct2,
                   THEN conjunct2]
  from whole first ser
  have below: "attemptBody pollFailedThenOk (Some ''sk'') ''q'' ''tool'' 1
        (backoffWait ''tool'' 3 1 startRuntime) = (Inl ?e, ?rtp) \<and>
      serializeError (asValue ?e) = Inr ?s \<and> (1::nat) < 3"
    by simp
  from whole first ser
  have atCeiling: "attemptBody pollFailedThenOk (Some ''sk'') ''q'' ''tool'' 1
        (backoffWait ''tool'' 1 1 startRuntime) = (Inl ?e, ?rtp) \<and>
      serializeError (asValue ?e) = Inr ?s"
    by simp
  note second3 = inst [where maxRetries = 3, THEN conjunct2, THEN conjunct2, THEN conjunct1,
                       THEN mp, OF below]
  note third1 = inst [where maxRetries = 1, THEN conjunct2, THEN conjunct2, THEN conjunct2,
                      THEN conjunct1, THEN mp, OF atCeiling]
  from whole have rtp: "snd (attemptBody pollFailedThenOk (Some ''sk'') ''q'' ''tool'' 1 startRuntime) = ?rtp"
    and thrown: "fst (attemptBody pollFailedThenOk (Some ''sk'') ''q'' ''tool'' 1 startRuntime) = Inl ?e"
    by simp_all
  from pf rtp
  have two: "fetches (snd (attemptBody pollFailedThenOk (Some ''sk'') ''q'' ''tool'' 1 startRuntime)) = 2"
    by (simp only:)
  from second3 [THEN conjunct1] rtp
  have goesOn: "retryLoop pollFailedThenOk (Some ''sk'') ''q'' ''tool'' 3 1 startRuntime =
     retryLoop pollFailedThenOk (Some ''sk'') ''q'' ''tool'' 3 (Suc 1)
       (emit (LogApiCall ''tool'' 1 0 500 ?s)
          (snd (attemptBody pollFailedThenOk (Some ''sk'') ''q'' ''tool'' 1 startRuntime)))"
    by (simp only:)
  from second3 [THEN conjunct2] rtp
  have more: "fetches (snd (attemptBody pollFailedThenOk (Some ''sk'') ''q'' ''tool'' 1 startRuntime))
     < fetches (snd (retryLoop pollFailedThenOk (Some ''sk'') ''q'' ''tool'' 3 1 startRuntime))"
    by (simp only:)
  from third1 rtp
  have ends: "retryLoop pollFailedThenOk (Some ''sk'') ''q'' ''tool'' 1 1 startRuntime =
     (Inr (failedResult ''Research failed''),
      emit (LogApiCall ''tool'' 1 0 500 ?s)
        (snd (attemptBody pollFailedThenOk (Some ''sk'') ''q'' ''tool'' 1 startRuntime)))"
    by (simp add: newError_def)
  show ?thesis
    by (intro conjI) (rule thrown two goesOn more ends)+
qed

text \<open>A job that the service reports \<^verbatim>\<open>failed\<close> at its first poll is submitted a second
  time, and completes.\<close>

theorem no_retry_after_remote_failure_counterexample:
  "fst (pollFailedThenOk 1) = OkJson (bareResponse ''resp_1'' ''failed'') \<and>
   submits (snd (executeDeepResearch pollFailedThenOk (Some ''sk'') ''q'' ''tool'' 3 startRuntime)) = 2 \<and>
   fetches (snd (executeDeepResearch pollFailedThenOk (Some ''sk'') ''q'' ''tool'' 3 startRuntime)) = 3 \<and>
   fst (executeDeepResearch pollFailedThenOk (Some ''sk'') ''q'' ''tool'' 3 startRuntime) =
     Inr \<lparr>res_id = ''resp_2'', res_content = ''report'', res_status = Completed,
           res_error = None, tokenUsage = None\<rparr>"
  by (simp add: run_defs scenario_defs submits_def toolLogged_def)

subsection \<open>The polling deadline\<close>

text \<open>Timeout precedence (C5), as the code has it.
  The deadline is tested at the head of every turn of the polling loop, against the
  time since polling began (the clock read once the submit response is in). If more
  than 600000 ms have passed, the turn throws the time-out error of the current
  attempt and leaves the runtime as it is: no wait, no request, whatever the service
  would answer. Otherwise the turn waits 5000 ms and issues the poll.\<close>

theorem poll_deadline_precedence:
  "resp_status d = ''queued'' \<or> resp_status d = ''in_progress'' \<Longrightarrow>
     (600000 < now rt - pollStartTime \<longrightarrow>
        pollLoop svc key toolId rid pollStartTime d n rt =
          (Inl (newError ''Deep research timed out after 600 seconds''), rt)) \<and>
     (now rt - pollStartTime \<le> 600000 \<longrightarrow>
        (\<exists>evs. trace (snd (pollLoop svc key toolId rid pollStartTime d n rt)) =
           trace rt @ Sleep 5000 # Fetch (pollRequest key rid) # evs))"
proof -
  assume waiting: "resp_status d = ''queued'' \<or> resp_status d = ''in_progress''"
  have shown: "timeoutMessage = ''Deep research timed out after 600 seconds''"
    by (simp add: timeoutMessage_def MAX_POLL_TIME_MS_def showNat.simps digit_def)
  have late: "600000 < now rt - pollStartTime \<longrightarrow>
        pollLoop svc key toolId rid pollStartTime d n rt =
          (Inl (newError ''Deep research timed out after 600 seconds''), rt)"
    using pollLoop_timeout [OF waiting, of rt pollStartTime svc key toolId rid n] shown
    by (simp add: MAX_POLL_TIME_MS_def)
  have early: "now rt - pollStartTime \<le> 600000 \<longrightarrow>
        (\<exists>evs. trace (snd (pollLoop svc key toolId rid pollStartTime d n rt)) =
           trace rt @ Sleep 5000 # Fetch (pollRequest key rid) # evs)"
  proof
    assume "now rt - pollStartTime \<le> 600000"
    then have inTime: "\<not> MAX_POLL_TIME_MS < now rt - pollStartTime"
      by (simp add: MAX_POLL_TIME_MS_def)
    obtain out rt1 where
      f: "fetch svc (pollRequest key rid) (wait (Finite POLL_INTERVAL_MS) rt) = (out, rt1)"
      by force
    from fetch_runtimeD [OF f]
    have t1: "trace rt1 = trace rt @ [Sleep 5000, Fetch (pollRequest key rid)]"
      by simp
    note step = pollLoop_step [OF waiting inTime f, of toolId n]
    show "\<exists>evs. trace (snd (pollLoop svc key toolId rid pollStartTime d n rt)) =
           trace rt @ Sleep 5000 # Fetch (pollRequest key rid) # evs"
    proof (cases out)
      case (OkJson newData)
      let ?rt2 = "if Suc n mod 6 = 0
                  then logToolExecution toolId
                         (pollingData rid (resp_status newData) (Suc n) (now rt - pollStartTime))
                         rt1
                  else rt1"
      obtain res rt' where
        rec: "pollLoop svc key toolId rid pollStartTime newData (Suc n) ?rt2 = (res, rt')"
        by force
      from pollLoop_effects [OF rec] obtain evs where "trace rt' = trace ?rt2 @ evs"
        by blast
      with step OkJson rec t1 show ?thesis by (simp split: if_splits)
    next
      case (Rejected e)
      with step t1 show ?thesis by simp
    next
      case (NotOk code body)
      with step t1 show ?thesis by simp
    next
      case (OkInvalid m)
      with step t1 show ?thesis by simp
    qed
  qed
  from late early show ?thesis by blast
qed

theorem poll_deadline_precedence_witness:
  "resp_status (bareResponse ''resp_1'' ''in_progress'') = ''in_progress'' \<and>
   pollLoop slowThenOk (Some ''sk'') ''tool'' ''resp_1'' 10 (bareResponse ''resp_1'' ''in_progress'') 1
      \<lparr>now = 705010, fetches = 2, trace = []\<rparr> =
     (Inl (newError ''Deep research timed out after 600 seconds''), \<lparr>now = 705010, fetches = 2, trace = []\<rparr>) \<and>
   (\<exists>evs. trace (snd (pollLoop slowThenOk (Some ''sk'') ''tool'' ''resp_1'' 10
                        (bareResponse ''resp_1'' ''in_progress'') 1
                        \<lparr>now = 600010, fetches = 2, trace = []\<rparr>)) =
      Sleep 5000 # Fetch (pollRequest (Some ''sk'') ''resp_1'') # evs)"
  using poll_deadline_precedence
          [of "bareResponse ''resp_1'' ''in_progress''" "\<lparr>now = 705010, fetches = 2, trace = []\<rparr>" 10
              slowThenOk "Some ''sk''" "''tool''" "''resp_1''" 1]
        poll_deadline_precedence
          [of "bareResponse ''resp_1'' ''in_progress''" "\<lparr>now = 600010, fetches = 2, trace = []\<rparr>" 10
              slowThenOk "Some ''sk''" "''tool''" "''resp_1''" 1]
  by (simp add: bareResponse_def)


text \<open>A job whose deadline has passed in its first attempt is submitted a second time,
  and completes.\<close>

theorem timeout_is_retried_counterexample:
  "LogApiCall ''tool'' 1 0 500 (Some (Serialized ''Deep research timed out after 600 seconds'' None))
     \<in> set (trace (snd (executeDeepResearch slowThenOk (Some ''sk'') ''q'' ''tool'' 3 startRuntime))) \<and>
   fetches (snd (executeDeepResearch slowThenOk (Some ''sk'') ''q'' ''tool'' 3 startRuntime)) = 3 \<and>
   fst (executeDeepResearch slowThenOk (Some ''sk'') ''q'' ''tool'' 3 startRuntime) =
     Inr \<lparr>res_id = ''resp_2'', res_content = ''report'', res_status = Completed,
           res_error = None, tokenUsage = None\<rparr>"
  by (simp add: run_defs scenario_defs timeoutMessage_def showNat.simps digit_def toolLogged_def)

subsection \<open>The submit request\<close>

text \<open>Submit request (C9).
  Every submit that a run of \<open>executeDeepResearch\<close> sends is the request
  \<open>submitRequest key query\<close>, and with a ceiling of at least one the run starts with
  it. That request is a \<^verbatim>\<open>POST\<close> to the \<^verbatim>\<open>/responses\<close> endpoint, carries the key as
  a bearer token in its \<^verbatim>\<open>Authorization\<close> header, and its body has a model identifier
  string, an \<^verbatim>\<open>input\<close> array of one user turn whose single content part is the
  instruction, a blank line and the query, \<^verbatim>\<open>reasoning\<close> equal to
  \<^verbatim>\<open>{summary: "auto"}\<close>, a \<^verbatim>\<open>tools\<close> array enabling web search, and
  \<^verbatim>\<open>background: true\<close>.\<close>

theorem submit_request_shape:
  "executeDeepResearch svc key query toolId maxRetries rt = (r, rt') \<Longrightarrow>
     (\<exists>evs. trace rt' = trace rt @ evs \<and>
            (\<forall>e \<in> set evs. isSubmit e \<longrightarrow> e = Fetch (submitRequest key query)) \<and>
            (1 \<le> maxRetries \<longrightarrow> (\<exists>more. evs = Fetch (submitRequest key query) # more))) \<and>
     req_url (submitRequest key query) = ''https://api.openai.com/v1/responses'' \<and>
     req_method (submitRequest key query) = ''POST'' \<and>
     map_of (req_headers (submitRequest key query)) ''Authorization'' = Some (bearer key) \<and>
     (\<forall>k. key = Some k \<longrightarrow> bearer key = ''Bearer '' @ k) \<and>
     (\<exists>body model.
        req_body (submitRequest key query) = Some body \<and>
        field ''model'' body = Some (JString model) \<and>
        field ''input'' body =
          Some (JArray
                 [JObject
                   [(''role'', JString ''user''),
                    (''content'',
                       JArray
                        [JObject
                          [(''type'', JString ''input_text''),
                           (''text'', JString (systemPrompt @ [CHR 0x0A, CHR 0x0A] @ query))]])]]) \<and>
        field ''reasoning'' body = Some (JObject [(''summary'', JString ''auto'')]) \<and>
        field ''tools'' body = Some (JArray [JObject [(''type'', JString ''web_search_preview'')]]) \<and>
        field ''background'' body = Some (JBool True))"
proof -
  assume run: "executeDeepResearch svc key query toolId maxRetries rt = (r, rt')"
  then have loop: "retryLoop svc key query toolId maxRetries 1 rt = (r, rt')"
    by (simp add: executeDeepResearch_def)
  from retryLoop_effects [OF loop] obtain evs where
    ext: "trace rt' = trace rt @ evs"
    and own: "list_all (\<lambda>e. isSubmit e \<longrightarrow> e = Fetch (submitRequest key query)) evs"
    by blast
  have starts: "1 \<le> maxRetries \<longrightarrow> (\<exists>more. evs = Fetch (submitRequest key query) # more)"
  proof
    assume "1 \<le> maxRetries"
    from retryLoop_head [OF this, of rt svc key query toolId] loop ext
    show "\<exists>more. evs = Fetch (submitRequest key query) # more"
      by simp
  qed
  from ext own starts
  have sent: "\<exists>evs. trace rt' = trace rt @ evs \<and>
            (\<forall>e \<in> set evs. isSubmit e \<longrightarrow> e = Fetch (submitRequest key query)) \<and>
            (1 \<le> maxRetries \<longrightarrow> (\<exists>more. evs = Fetch (submitRequest key query) # more))"
    by (auto simp: list_all_iff)
  have wire: "req_url (submitRequest key query) = ''https://api.openai.com/v1/responses'' \<and>
     req_method (submitRequest key query) = ''POST'' \<and>
     map_of (req_headers (submitRequest key query)) ''Authorization'' = Some (bearer key) \<and>
     (\<forall>k. key = Some k \<longrightarrow> bearer key = ''Bearer '' @ k)"
    by (simp add: submitRequest_def bearer_def)
  have body: "\<exists>body model.
        req_body (submitRequest key query) = Some body \<and>
        field ''model'' body = Some (JString model) \<and>
        field ''input'' body =
          Some (JArray
                 [JObject
                   [(''role'', JString ''user''),
                    (''content'',
                       JArray
                        [JObject
                          [(''type'', JString ''input_text''),
                           (''text'', JString (systemPrompt @ [CHR 0x0A, CHR 0x0A] @ query))]])]]) \<and>
        field ''reasoning'' body = Some (JObject [(''summary'', JString ''auto'')]) \<and>
        field ''tools'' body = Some (JArray [JObject [(''type'', JString ''web_search_preview'')]]) \<and>
        field ''background'' body = Some (JBool True)"
    by (simp add: submitRequest_def submitBody_def)
  from sent wire body show ?thesis by blast
qed

theorem submit_request_shape_witness:
  "(\<exists>more. trace (snd (executeDeepResearch failedThenOk (Some ''sk'') ''q'' ''tool'' 3 startRuntime)) =
       Fetch (submitRequest (Some ''sk'') ''q'') # more) \<and>
   map_of (req_headers (submitRequest (Some ''sk'') ''q'')) ''Authorization'' = Some ''Bearer sk'' \<and>
   (\<exists>body. req_body (submitRequest (Some ''sk'') ''q'') = Some body \<and>
      field ''background'' body = Some (JBool True))"
  using submit_request_shape
          [of failedThenOk "Some ''sk''" "''q''" "''tool''" 3 startRuntime, OF prod.collapse [symmetric]]
  by (auto simp: startRuntime_def)

subsection \<open>Extraction of the content\<close>

lemma scanParts_find:
  "scanParts parts c = (case List.find isTextPart parts of Some p \<Rightarrow> part_text p | None \<Rightarrow> c)"
  by (induction parts) (simp_all add: isTextPart_def)

text \<open>The value of \<open>content\<close> after one item, when it was falsy before: it is truthy
  exactly if the item offers a text, and then it is that text.\<close>

lemma item_offer:
  assumes "\<not> truthy c"
  shows "truthy (if item_type item = ''message''
                 then (case item_content item of Some parts \<Rightarrow> scanParts parts c | None \<Rightarrow> c)
                 else c) = truthy (itemText item) \<and>
         (truthy (itemText item) \<longrightarrow>
            (if item_type item = ''message''
             then (case item_content item of Some parts \<Rightarrow> scanParts parts c | None \<Rightarrow> c)
             else c) = itemText item)"
  using assms by (auto simp: itemText_def scanParts_find split: option.splits)

lemma scanOutput_firstText:
  "\<not> truthy c \<Longrightarrow>
     (if truthy (scanOutput items c) then scanOutput items c else None) = firstText items"
proof (induction items arbitrary: c)
  case Nil
  then show ?case by (simp add: firstText_def)
next
  case (Cons item rest)
  let ?c1 = "if item_type item = ''message''
             then (case item_content item of Some parts \<Rightarrow> scanParts parts c | None \<Rightarrow> c)
             else c"
  from item_offer [OF Cons.prems, of item]
  have same: "truthy ?c1 = truthy (itemText item)"
    and offer: "truthy (itemText item) \<longrightarrow> ?c1 = itemText item"
    by simp_all
  show ?case
  proof (cases "truthy (itemText item)")
    case True
    with same offer have "scanOutput (item # rest) c = itemText item"
      by (simp add: Let_def)
    with True show ?thesis by (simp add: firstText_def)
  next
    case False
    with same have falsy: "\<not> truthy ?c1" by simp
    then have "scanOutput (item # rest) c = scanOutput rest ?c1"
      by (simp add: Let_def)
    moreover from False have "firstText (item # rest) = firstText rest"
      by (simp add: firstText_def)
    ultimately show ?thesis using Cons.IH [OF falsy] by (simp only:)
  qed
qed

lemma extractContent_spec:
  "(if truthy (extractContent d) then extractContent d else None) = specContent d"
proof (cases "truthy (output_text d)")
  case True
  then show ?thesis by (simp add: extractContent_def specContent_def)
next
  case False
  show ?thesis
  proof (cases "resp_output d")
    case None
    with False show ?thesis by (simp add: extractContent_def specContent_def)
  next
    case (Some items)
    from scanOutput_firstText [of None items]
    have "(if truthy (scanOutput items None) then scanOutput items None else None) = firstText items"
      by simp
    moreover from False Some have "extractContent d = scanOutput items None"
      by (simp add: extractContent_def)
    moreover from False Some have "specContent d = firstText items"
      by (simp add: specContent_def)
    ultimately show ?thesis by (simp only:)
  qed
qed

text \<open>Extraction (C4), as the code has it.
  For a response that ends the polling loop with a status other than \<^verbatim>\<open>failed\<close>
  and \<^verbatim>\<open>cancelled\<close>, the attempt returns a completed result whose content is
  \<^verbatim>\<open>output_text\<close> when that is a non-empty string; otherwise the first non-empty
  text among those that the items of \<^verbatim>\<open>output\<close> offer in order, an item of type
  \<^verbatim>\<open>message\<close> offering the text of its first part of type \<^verbatim>\<open>output_text\<close> or
  \<^verbatim>\<open>text\<close>; and if there is no such text the attempt throws
  \<^verbatim>\<open>No content returned from OpenAI deep research\<close>.\<close>

theorem extraction_order:
  "resp_status d \<noteq> ''failed'' \<Longrightarrow> resp_status d \<noteq> ''cancelled'' \<Longrightarrow>
     fst (handleCompletion toolId a s rid d n rt) =
       (case specContent d of
          Some content \<Rightarrow>
            Inr \<lparr>res_id = rid, res_content = content, res_status = Completed, res_error = None,
                  tokenUsage = tokenUsageOf (usage d)\<rparr>
        | None \<Rightarrow> Inl (newError ''No content returned from OpenAI deep research''))"
proof -
  assume st: "resp_status d \<noteq> ''failed''" "resp_status d \<noteq> ''cancelled''"
  note spec = extractContent_spec [of d]
  show ?thesis
  proof (cases "extractContent d")
    case None
    with spec have "specContent d = None" by simp
    with None st show ?thesis by (simp add: handleCompletion_def noContentMessage_def)
  next
    case (Some content)
    show ?thesis
    proof (cases "content = []")
      case True
      with Some spec have "specContent d = None" by simp
      with Some True st show ?thesis by (simp add: handleCompletion_def noContentMessage_def)
    next
      case False
      with Some spec have "specContent d = Some content" by simp
      with Some False st show ?thesis by (simp add: handleCompletion_def)
    qed
  qed
qed

theorem extraction_order_witness:
  "resp_status fallbackResponse \<noteq> ''failed'' \<and> resp_status fallbackResponse \<noteq> ''cancelled'' \<and>
   specContent fallbackResponse = Some ''Findings'' \<and>
   fst (handleCompletion ''tool'' 1 0 ''resp_3'' fallbackResponse 4 startRuntime) =
     Inr \<lparr>res_id = ''resp_3'', res_content = ''Findings'', res_status = Completed,
           res_error = None, tokenUsage = None\<rparr> \<and>
   specContent (bareResponse ''resp_4'' ''completed'') = None \<and>
   fst (handleCompletion ''tool'' 1 0 ''resp_4'' (bareResponse ''resp_4'' ''completed'') 0 startRuntime) =
     Inl (newError ''No content returned from OpenAI deep research'')"
proof -
  have st: "resp_status fallbackResponse \<noteq> ''failed''" "resp_status fallbackResponse \<noteq> ''cancelled''"
    "resp_status (bareResponse ''resp_4'' ''completed'') \<noteq> ''failed''"
    "resp_status (bareResponse ''resp_4'' ''completed'') \<noteq> ''cancelled''"
    by (simp_all add: fallbackResponse_def bareResponse_def)
  have found: "specContent fallbackResponse = Some ''Findings''"
    by (simp add: specContent_def firstText_def itemText_def isTextPart_def
                  fallbackResponse_def bareResponse_def)
  have absent: "specContent (bareResponse ''resp_4'' ''completed'') = None"
    by (simp add: specContent_def bareResponse_def)
  have noUsage: "tokenUsageOf (usage fallbackResponse) = None"
    by (simp add: tokenUsageOf_def fallbackResponse_def bareResponse_def)
  from extraction_order [OF st(1) st(2), of "''tool''" 1 0 "''resp_3''" 4 startRuntime]
       found noUsage
  have first: "fst (handleCompletion ''tool'' 1 0 ''resp_3'' fallbackResponse 4 startRuntime) =
     Inr \<lparr>res_id = ''resp_3'', res_content = ''Findings'', res_status = Completed,
           res_error = None, tokenUsage = None\<rparr>"
    by simp
  from extraction_order [OF st(3) st(4), of "''tool''" 1 0 "''resp_4''" 0 startRuntime]
       absent
  have second: "fst (handleCompletion ''tool'' 1 0 ''resp_4'' (bareResponse ''resp_4'' ''completed'') 0
                       startRuntime) = Inl (newError ''No content returned from OpenAI deep research'')"
    by simp
  from st(1) st(2) found first absent second show ?thesis by blast
qed

text \<open>An \<^verbatim>\<open>output_text\<close> that is present but empty is passed over: the content comes
  from the output list.\<close>

theorem extraction_order_counterexample:
  "output_text emptyPrimary = Some [] \<and> resp_status emptyPrimary = ''completed'' \<and>
   fst (handleCompletion ''tool'' 1 0 ''resp_1'' emptyPrimary 0 startRuntime) =
     Inr \<lparr>res_id = ''resp_1'', res_content = ''B'', res_status = Completed,
           res_error = None, tokenUsage = None\<rparr>"
  by (simp add: handleCompletion_def extractContent_def tokenUsageOf_def emptyPrimary_def
                bareResponse_def)

subsection \<open>The end of a run\<close>

text \<open>Terminal phase (C3), as the code has it.
  The final run status is built without looking at the outcome of any job: its phase is
  \<^verbatim>\<open>complete\<close> with 5 of 5 sections, on the server and on the chat page alike. So the
  phase is \<^verbatim>\<open>complete\<close> whenever at least one job succeeded, in agreement with the
  specification, and no code sets the phase \<^verbatim>\<open>error\<close> at the end of a run.\<close>

theorem terminal_phase_complete:
  "phase (onFinish runId result clock) = Complete \<and>
   completedSections (onFinish runId result clock) = 5 \<and>
   totalSections (onFinish runId result clock) = 5 \<and>
   chatOnFinish (Some s) =
     Some (s\<lparr>phase := Complete, phaseMessage := ''Research complete!'',
             completedSections := totalSections s\<rparr>) \<and>
   chatOnFinish None = None \<and>
   (\<not> allFailed (toolResults result) \<longrightarrow>
      phase (onFinish runId result clock) = specTerminalPhase (toolResults result))"
  by (simp add: onFinish_def createRunStatus_def chatOnFinish_def specTerminalPhase_def)

theorem terminal_phase_complete_witness:
  "\<not> allFailed [failedOutput, okOutput, okOutput, okOutput, okOutput] \<and>
   specTerminalPhase [failedOutput, okOutput, okOutput, okOutput, okOutput] = Complete \<and>
   phase (onFinish ''run-1''
            \<lparr>finishReason = ''stop'',
             toolResults = [failedOutput, okOutput, okOutput, okOutput, okOutput]\<rparr> 7) = Complete"
  using terminal_phase_complete
          [of "''run-1''"
              "\<lparr>finishReason = ''stop'',
                toolResults = [failedOutput, okOutput, okOutput, okOutput, okOutput]\<rparr>" 7]
  by (simp add: allFailed_def failedOutput_def okOutput_def specTerminalPhase_def)

text \<open>With all five jobs failed the specification asks for \<^verbatim>\<open>error\<close>; the final run
  status says \<^verbatim>\<open>complete\<close>.\<close>

theorem terminal_phase_counterexample:
  "allFailed [failedOutput, failedOutput, failedOutput, failedOutput, failedOutput] \<and>
   specTerminalPhase [failedOutput, failedOutput, failedOutput, failedOutput, failedOutput] =
     PhaseError \<and>
   phase (onFinish ''run-1''
            \<lparr>finishReason = ''stop'',
             toolResults = [failedOutput, failedOutput, failedOutput, failedOutput, failedOutput]\<rparr>
            7) = Complete"
  by (simp add: allFailed_def failedOutput_def specTerminalPhase_def onFinish_def createRunStatus_def)

subsection \<open>The tool around a job\<close>

text \<open>\<^verbatim>\<open>logToolExecution\<close> does not read the property \<^verbatim>\<open>sectionStatus\<close> of its argument:
  whatever section status the tool puts there, the event is the same.\<close>

lemma logToolExecution_sectionStatus:
  "logToolExecution ident (data\<lparr>sectionStatus := part\<rparr>) rt = logToolExecution ident data rt"
  by (simp add: logToolExecution_def toolLogged_def toolMessage_def)

lemmas tool_defs =
  execute_def afterResearch_def announce_def startData_def sectionStatusData_def
  toolErrorData_def toolData_def toolLogged_def toolSource_def toolCategory_def toolMessage_def
  createSectionStatus_def effectiveRunId_def effectiveSectionId_def sectionOne_def diskOk_def
  showNat.simps digit_def

text \<open>What \<open>executeDeepResearch\<close> throws leaves \<^verbatim>\<open>execute\<close> as well, with no section
  status after \<^verbatim>\<open>running\<close>.\<close>

lemma execute_throws:
  "fst (execute opaqueDown diskOk (Some ''sk'') ''tool'' sectionOne startRuntime) =
     Inl (newError ''Do not know how to serialize a BigInt'') \<and>
   length (filter isSectionStatusLog
             (trace (snd (execute opaqueDown diskOk (Some ''sk'') ''tool'' sectionOne startRuntime)))) = 1"
  by (simp add: run_defs scenario_defs tool_defs)

text \<open>Failure of a job (C6): the run at which the event is missing.
  The service answers every request with 503, so the job of section 1 ends failed.
  \<^verbatim>\<open>execute\<close> returns an output with \<^verbatim>\<open>success: false\<close> and the job's error. It builds
  the section status \<^verbatim>\<open>error\<close> and hands it to \<^verbatim>\<open>logToolExecution\<close>, which drops it:
  of the two events with the phase \<^verbatim>\<open>section-status\<close> in the log, the one written
  before the job and the one written after its failure, neither holds a status, a run
  id, a section id or an error, and they differ in their timestamps only.\<close>

theorem section_status_error_dropped:
  "fst (execute unavailable diskOk (Some ''sk'') ''tool'' sectionOne startRuntime) =
     Inr \<lparr>success = False, out_error = Some ''OpenAI API error (503): {}'',
           out_subtopic = ''History'', markdownPath = None, pdfPath = None,
           contentPreview = None\<rparr> \<and>
   filter isSectionStatusLog
     (trace (snd (execute unavailable diskOk (Some ''sk'') ''tool'' sectionOne startRuntime))) =
     [ToolLogged
        \<lparr>ev_id = ''tool'', ev_timestamp = 0, ev_source = ''tool:deep-research'',
         ev_level = ''info'', ev_category = None,
         ev_message = ''Tool deepResearch section-status'', ev_toolName = ''deepResearch'',
         ev_phase = ''section-status'', ev_parameters = None, ev_result = None,
         ev_error = None, ev_durationMs = None, ev_attempt = None, ev_maxAttempts = None\<rparr>,
      ToolLogged
        \<lparr>ev_id = ''tool'', ev_timestamp = 6060, ev_source = ''tool:deep-research'',
         ev_level = ''info'', ev_category = None,
         ev_message = ''Tool deepResearch section-status'', ev_toolName = ''deepResearch'',
         ev_phase = ''section-status'', ev_parameters = None, ev_result = None,
         ev_error = None, ev_durationMs = None, ev_attempt = None, ev_maxAttempts = None\<rparr>]"
  by (simp add: run_defs scenario_defs tool_defs retryingData_def)

end
